theory Spec2Isabelle
  imports Main "HOL-Library.Word"
begin

unbundle bit_operations_syntax

section \<open>Python values, exceptions and the external data model\<close>

text \<open>
  The module \<^verbatim>\<open>opcua/ua/ua_binary.py\<close> is embedded function by function (all but the
  header decoder and the array format helpers, which nothing else calls). Python is
  dynamically typed, so the values the codec handles are one datatype \<open>pyval\<close>; an
  exception is a value of \<open>error\<close> and a function that can raise returns
  \<open>error + 'a\<close> (\<open>Inl\<close> the exception). Python integers are unbounded: \<open>int\<close>.
  A byte is an \<open>8 word\<close>; a \<^verbatim>\<open>bytes\<close> object is a list of them. A \<^verbatim>\<open>str\<close> is the
  \<open>char list\<close> of its UTF-8 code units (an Isabelle \<open>char\<close> is one byte), so a type
  tag such as \<^verbatim>\<open>"ListOfInt32"\<close> is the literal \<open>''ListOfInt32''\<close>.
\<close>

type_synonym byte = "8 word"
type_synonym bytes = "byte list"

datatype error =
    NotEnoughData
  | StructError
  | TypeError
  | ValueError
  | AttributeError
  | KeyError
  | IndexError
  | UnicodeDecodeError
  | OverflowError
  | RecursionError
  | UaError

definition bindE :: "error + 'a \<Rightarrow> ('a \<Rightarrow> error + 'b) \<Rightarrow> error + 'b" where
  "bindE m f = (case m of Inl e \<Rightarrow> Inl e | Inr x \<Rightarrow> f x)"

text \<open>
  \<^verbatim>\<open>ua.NodeIdType\<close> and \<^verbatim>\<open>ua.VariantType\<close> are enumerations of the data-model package.
  The six members of \<open>NodeIdType\<close> and their ordinals are the ones the specification
  lists (TwoByte=0, FourByte=1, Numeric=2, String=3, Guid=4, ByteString=5). A member of
  \<open>VariantType\<close> is its \<^verbatim>\<open>name\<close> and its \<^verbatim>\<open>value\<close>.
\<close>

datatype NodeIdType = TwoByte | FourByte | Numeric | String | Guid | ByteString

datatype VariantType = VariantType (vt_name: string) (vt_value: int)

text \<open>
  The values. \<open>PFloat\<close> is a Python float by its IEEE-754 double bit pattern,
  \<open>PDateTime\<close> a naive \<^verbatim>\<open>datetime\<close> by its microseconds since 0001-01-01T00:00:00,
  \<open>PGuid\<close> a \<^verbatim>\<open>uuid.UUID\<close> by its 16 \<^verbatim>\<open>bytes\<close>, \<open>PEnum\<close> a member of an \<^verbatim>\<open>IntEnum\<close> by
  its value, \<open>PClass\<close> a class object of the data model by its name and \<open>PBuffer\<close> the
  cursor object of the current decode call. \<open>PNodeId\<close> carries NodeIdType,
  NamespaceIndex, Identifier, NamespaceUri and ServerIndex; \<open>PVariant\<close> carries
  VariantType, Value, is_array and Dimensions; \<open>PExtensionObject\<close> carries TypeId,
  Encoding and Body; \<open>PHeader\<close> carries MessageType, ChunkType, body_size,
  packet_size and ChannelId. \<open>PObject\<close> is an instance of a structured-record class:
  the class name, its \<^verbatim>\<open>ua_types\<close> (the ordered (field name, type tag) pairs), its
  \<^verbatim>\<open>ua_switches\<close> when the class has that attribute (a dict, here the list of its
  items: optional field name, container field name, bit index) and the instance's
  attributes. Objects are values here: what the source does to an object shared by
  two references is outside the model.
\<close>

datatype pyval =
    PNone
  | PBool bool
  | PInt int
  | PFloat "64 word"
  | PStr string
  | PBytes bytes
  | PList "pyval list"
  | PTuple "pyval list"
  | PDateTime int
  | PGuid bytes
  | PEnum int
  | PClass string
  | PBuffer
  | PNodeId NodeIdType pyval pyval pyval pyval
  | PVariant VariantType pyval bool pyval
  | PExtensionObject pyval pyval pyval
  | PHeader pyval pyval pyval pyval pyval
  | PObject string "(string \<times> string) list" "(string \<times> string \<times> int) list option"
      "(string \<times> pyval) list"

text \<open>
  \<open>as_int\<close>: the integer a value is where Python wants one (\<^verbatim>\<open>bool\<close> and \<^verbatim>\<open>IntEnum\<close>
  are subclasses of \<^verbatim>\<open>int\<close>). \<open>truthy\<close>: \<^verbatim>\<open>bool(v)\<close>; a float is false when it is
  zero of either sign. \<open>py_seq\<close>: the elements of a value that has \<^verbatim>\<open>len\<close> and can be
  iterated over: those of a list or a tuple, the integers of a bytes object and the
  one-character strings of a string (\<open>code_points\<close> cuts the UTF-8 code units of a
  string into its characters: a character starts at each unit that is not a
  continuation unit). For any other value \<^verbatim>\<open>len\<close> is a TypeError.
\<close>

fun as_int :: "pyval \<Rightarrow> int option" where
  "as_int (PInt i) = Some i"
| "as_int (PBool b) = Some (if b then 1 else 0)"
| "as_int (PEnum v) = Some v"
| "as_int _ = None"

fun truthy :: "pyval \<Rightarrow> bool" where
  "truthy PNone = False"
| "truthy (PBool b) = b"
| "truthy (PInt i) = (i \<noteq> 0)"
| "truthy (PFloat w) = (w AND 0x7FFFFFFFFFFFFFFF \<noteq> 0)"
| "truthy (PStr s) = (s \<noteq> [])"
| "truthy (PBytes bs) = (bs \<noteq> [])"
| "truthy (PList xs) = (xs \<noteq> [])"
| "truthy (PTuple xs) = (xs \<noteq> [])"
| "truthy (PEnum v) = (v \<noteq> 0)"
| "truthy _ = True"

definition continuation_unit :: "char \<Rightarrow> bool" where
  "continuation_unit c = (128 \<le> (of_char c :: nat) \<and> (of_char c :: nat) < 192)"

function code_points :: "string \<Rightarrow> string list" where
  "code_points [] = []"
| "code_points (c # cs) =
     (c # takeWhile continuation_unit cs) # code_points (dropWhile continuation_unit cs)"
  by pat_completeness auto
termination
  by (relation "measure length") (auto simp add: length_dropWhile_le less_Suc_eq_le)

fun py_seq :: "pyval \<Rightarrow> pyval list option" where
  "py_seq (PList xs) = Some xs"
| "py_seq (PTuple xs) = Some xs"
| "py_seq (PBytes bs) = Some (map (\<lambda>b. PInt (uint b)) bs)"
| "py_seq (PStr s) = Some (map PStr (code_points s))"
| "py_seq _ = None"

fun is_list_or_tuple :: "pyval \<Rightarrow> bool" where
  "is_list_or_tuple (PList xs) = True"
| "is_list_or_tuple (PTuple xs) = True"
| "is_list_or_tuple _ = False"

subsection \<open>The cursor\<close>

text \<open>
  Modelled from the spec: the cursor (\<^verbatim>\<open>opcua.common.utils.Buffer\<close>, which is not among
  the sources). The state of a cursor is the bytes it has not consumed yet. \<open>read\<close>
  gives exactly \<open>n\<close> bytes and advances, or fails; \<open>skip\<close> advances without giving the
  bytes; \<open>copy\<close> is an independent view of the next \<open>n\<close> bytes (of all that is left
  when fewer are) and does not advance.
\<close>

type_synonym Buffer = bytes

definition read :: "Buffer \<Rightarrow> int \<Rightarrow> error + (bytes \<times> Buffer)" where
  "read data n =
     (if n < 0 \<or> int (length data) < n then Inl NotEnoughData
      else Inr (take (nat n) data, drop (nat n) data))"

definition skip :: "Buffer \<Rightarrow> int \<Rightarrow> error + Buffer" where
  "skip data n =
     (if n < 0 \<or> int (length data) < n then Inl NotEnoughData
      else Inr (drop (nat n) data))"

definition copy :: "Buffer \<Rightarrow> int \<Rightarrow> Buffer" where
  "copy data n = take (nat n) data"

subsection \<open>The rest of the data-model package\<close>

text \<open>
  What the module takes from packages that are not among the sources is a parameter
  \<open>env\<close> of the model:
  \<^item> \<open>float_pack\<close>, \<open>float_unpack\<close>: the IEEE-754 conversions of \<^verbatim>\<open>struct\<close> for the
    formats \<^verbatim>\<open>f\<close> and \<^verbatim>\<open>d\<close>;
  \<^item> \<open>ua_new name\<close>: \<^verbatim>\<open>getattr(ua, name)()\<close>, a default instance of the class of that
    name (\<open>None\<close>: the package has no such attribute);
  \<^item> \<open>uatypes_from_binary name\<close>: \<^verbatim>\<open>getattr(uatypes, name).from_binary\<close>;
  \<^item> \<open>extension_object_classes\<close>: the registry from a TypeId to a class (its name),
    \<open>klass_from_binary\<close> that class's \<^verbatim>\<open>from_binary\<close> on the body's own cursor;
  \<^item> \<open>extension_object_ids\<close>: the registry from a class name to its TypeId;
  \<^item> \<open>datatype_to_varianttype\<close>: the ordinal table of \<open>VariantType\<close>;
  \<^item> \<open>flatten\<close>: \<^verbatim>\<open>ua.flatten\<close>;
  \<^item> \<open>method_to_binary v\<close>: the method \<^verbatim>\<open>v.to_binary()\<close> of a data-model object
    (\<open>None\<close>: \<open>v\<close> has no such attribute).
\<close>

datatype fmt =
    Fmt_b | Fmt_h | Fmt_i | Fmt_q | Fmt_B | Fmt_H | Fmt_I | Fmt_Q | Fmt_bool | Fmt_f | Fmt_d
  | Fmt_s nat

record env =
  float_pack :: "fmt \<Rightarrow> pyval \<Rightarrow> error + bytes"
  float_unpack :: "fmt \<Rightarrow> bytes \<Rightarrow> pyval"
  ua_new :: "string \<Rightarrow> pyval option"
  uatypes_from_binary :: "string \<Rightarrow> (Buffer \<Rightarrow> error + (pyval \<times> Buffer)) option"
  extension_object_classes :: "pyval \<Rightarrow> string option"
  klass_from_binary :: "string \<Rightarrow> Buffer \<Rightarrow> error + pyval"
  extension_object_ids :: "string \<Rightarrow> pyval option"
  datatype_to_varianttype :: "int \<Rightarrow> error + VariantType"
  flatten :: "pyval \<Rightarrow> error + pyval"
  method_to_binary :: "pyval \<Rightarrow> (error + bytes) option"

section \<open>Bit flag helpers\<close>

definition test_bit :: "int \<Rightarrow> nat \<Rightarrow> int" where
  "test_bit data offset = data AND push_bit offset 1"

definition set_bit :: "int \<Rightarrow> nat \<Rightarrow> int" where
  "set_bit data offset = data OR push_bit offset 1"

definition unset_bit :: "int \<Rightarrow> nat \<Rightarrow> int" where
  "unset_bit data offset = data AND NOT (push_bit offset 1)"

section \<open>Time conversion\<close>

text \<open>
  \<^verbatim>\<open>datetime\<close> of the standard library: a naive datetime is its number of microseconds
  since 0001-01-01T00:00:00 in the proleptic Gregorian calendar; the representable
  ones are those from 0 to \<open>datetime_max\<close>. \<open>timedelta_microseconds n\<close> is
  \<^verbatim>\<open>timedelta(microseconds=n)\<close>, which raises OverflowError beyond 999999999 days,
  and \<open>datetime_add\<close> is \<^verbatim>\<open>+\<close>, which raises OverflowError outside the representable
  range.
\<close>

definition days_before_year :: "int \<Rightarrow> int" where
  "days_before_year y = (y - 1) * 365 + (y - 1) div 4 - (y - 1) div 100 + (y - 1) div 400"

definition is_leap :: "int \<Rightarrow> bool" where
  "is_leap y = (y mod 4 = 0 \<and> (y mod 100 \<noteq> 0 \<or> y mod 400 = 0))"

definition days_before_month :: "int \<Rightarrow> int \<Rightarrow> int" where
  "days_before_month y m =
     sum_list (take (nat (m - 1)) [31, if is_leap y then 29 else 28, 31, 30, 31, 30, 31, 31, 30, 31, 30, 31])"

definition ymd2ord :: "int \<Rightarrow> int \<Rightarrow> int \<Rightarrow> int" where
  "ymd2ord y m d = days_before_year y + days_before_month y m + d"

definition datetime :: "int \<Rightarrow> int \<Rightarrow> int \<Rightarrow> int \<Rightarrow> int \<Rightarrow> int \<Rightarrow> int \<Rightarrow> int" where
  "datetime y m d hh mm ss us =
     (((ymd2ord y m d - 1) * 24 + hh) * 60 + mm) * 60000000 + ss * 1000000 + us"

definition MAXYEAR :: int where
  "MAXYEAR = 9999"

definition datetime_max :: int where
  "datetime_max = datetime MAXYEAR 12 31 23 59 59 999999"

definition timedelta_microseconds :: "int \<Rightarrow> error + int" where
  "timedelta_microseconds n =
     (if \<bar>n div 86400000000\<bar> > 999999999 then Inl OverflowError else Inr n)"

definition datetime_add :: "int \<Rightarrow> int \<Rightarrow> error + int" where
  "datetime_add dt td =
     (if 0 \<le> dt + td \<and> dt + td \<le> datetime_max then Inr (dt + td) else Inl OverflowError)"

definition EPOCH_AS_FILETIME :: int where
  "EPOCH_AS_FILETIME = 116444736000000000"

definition HUNDREDS_OF_NANOSECONDS :: int where
  "HUNDREDS_OF_NANOSECONDS = 10000000"

definition FILETIME_EPOCH_AS_DATETIME :: int where
  "FILETIME_EPOCH_AS_DATETIME = datetime 1601 1 1 0 0 0 0"

text \<open>
  \<^verbatim>\<open>timegm(dt.timetuple())\<close> is the whole seconds between 1970-01-01 and \<open>dt\<close>. A value
  that is not a datetime has no \<^verbatim>\<open>tzinfo\<close>.
\<close>

definition timegm :: "int \<Rightarrow> int" where
  "timegm dt = dt div 1000000 - datetime 1970 1 1 0 0 0 0 div 1000000"

definition datetime_to_win_epoch :: "pyval \<Rightarrow> error + int" where
  "datetime_to_win_epoch dt =
     (case dt of
        PDateTime us \<Rightarrow>
          (let ft = EPOCH_AS_FILETIME + timegm us * HUNDREDS_OF_NANOSECONDS
           in Inr (ft + (us mod 1000000) * 10))
      | _ \<Rightarrow> Inl AttributeError)"

text \<open>
  The logger is the one output channel of the module: a function that logs returns the
  records it emitted next to its result.
\<close>

datatype loglevel = WARNING

type_synonym log_record = "loglevel \<times> string \<times> int"

definition win_epoch_to_datetime :: "int \<Rightarrow> (error + int) \<times> log_record list" where
  "win_epoch_to_datetime epch =
     (case bindE (timedelta_microseconds (epch div 10)) (datetime_add FILETIME_EPOCH_AS_DATETIME) of
        Inr dt \<Rightarrow> (Inr dt, [])
      | Inl OverflowError \<Rightarrow>
          (Inr (datetime MAXYEAR 12 31 23 59 59 999999), [(WARNING, ''datetime overflow: %s'', epch)])
      | Inl e \<Rightarrow> (Inl e, []))"

section \<open>The struct module\<close>

text \<open>
  \<^verbatim>\<open>struct.pack\<close> and \<^verbatim>\<open>struct.unpack\<close> for the little-endian formats the module uses
  (\<^verbatim>\<open><\<close>: no padding). A format string is the list of its fields; \<open>Fmt_s n\<close> is \<^verbatim>\<open>ns\<close>
  (and \<^verbatim>\<open>c\<close> for \<open>n = 1\<close>). An integer field takes an integer within the field's range
  and fails with \<^verbatim>\<open>struct.error\<close> otherwise; \<^verbatim>\<open>?\<close> takes the truth value of anything.
\<close>

fun fmt_size :: "fmt \<Rightarrow> nat" where
  "fmt_size Fmt_b = 1"
| "fmt_size Fmt_B = 1"
| "fmt_size Fmt_bool = 1"
| "fmt_size Fmt_h = 2"
| "fmt_size Fmt_H = 2"
| "fmt_size Fmt_i = 4"
| "fmt_size Fmt_I = 4"
| "fmt_size Fmt_f = 4"
| "fmt_size Fmt_q = 8"
| "fmt_size Fmt_Q = 8"
| "fmt_size Fmt_d = 8"
| "fmt_size (Fmt_s n) = n"

fun fmt_range :: "fmt \<Rightarrow> (int \<times> int) option" where
  "fmt_range Fmt_b = Some (-128, 127)"
| "fmt_range Fmt_B = Some (0, 255)"
| "fmt_range Fmt_h = Some (-32768, 32767)"
| "fmt_range Fmt_H = Some (0, 65535)"
| "fmt_range Fmt_i = Some (-2147483648, 2147483647)"
| "fmt_range Fmt_I = Some (0, 4294967295)"
| "fmt_range Fmt_q = Some (-9223372036854775808, 9223372036854775807)"
| "fmt_range Fmt_Q = Some (0, 18446744073709551615)"
| "fmt_range _ = None"

fun fmt_signed :: "fmt \<Rightarrow> bool" where
  "fmt_signed Fmt_b = True"
| "fmt_signed Fmt_h = True"
| "fmt_signed Fmt_i = True"
| "fmt_signed Fmt_q = True"
| "fmt_signed _ = False"

definition le_bytes :: "nat \<Rightarrow> int \<Rightarrow> bytes" where
  "le_bytes n v = map (\<lambda>k. word_of_int (v div 256 ^ k)) [0..<n]"

definition le_uint :: "bytes \<Rightarrow> int" where
  "le_uint bs = foldr (\<lambda>b a. uint b + 256 * a) bs 0"

definition le_sint :: "bytes \<Rightarrow> int" where
  "le_sint bs =
     (let u = le_uint bs
      in if 2 ^ (8 * length bs - 1) \<le> u then u - 2 ^ (8 * length bs) else u)"

definition be_uint :: "bytes \<Rightarrow> int" where
  "be_uint bs = le_uint (rev bs)"

definition pack1 :: "env \<Rightarrow> fmt \<Rightarrow> pyval \<Rightarrow> error + bytes" where
  "pack1 env f v =
     (case f of
        Fmt_bool \<Rightarrow> Inr [if truthy v then 1 else 0]
      | Fmt_f \<Rightarrow> float_pack env f v
      | Fmt_d \<Rightarrow> float_pack env f v
      | Fmt_s n \<Rightarrow>
          (case v of
             PBytes bs \<Rightarrow> Inr (take n bs @ replicate (n - length bs) 0)
           | _ \<Rightarrow> Inl StructError)
      | _ \<Rightarrow>
          (case (as_int v, fmt_range f) of
             (Some i, Some (lo, hi)) \<Rightarrow>
               if lo \<le> i \<and> i \<le> hi then Inr (le_bytes (fmt_size f) i) else Inl StructError
           | _ \<Rightarrow> Inl StructError))"

definition unpack1 :: "env \<Rightarrow> fmt \<Rightarrow> bytes \<Rightarrow> pyval" where
  "unpack1 env f bs =
     (case f of
        Fmt_bool \<Rightarrow> PBool (le_uint bs \<noteq> 0)
      | Fmt_f \<Rightarrow> float_unpack env f bs
      | Fmt_d \<Rightarrow> float_unpack env f bs
      | Fmt_s n \<Rightarrow> PBytes bs
      | _ \<Rightarrow> PInt (if fmt_signed f then le_sint bs else le_uint bs))"

fun struct_pack :: "env \<Rightarrow> fmt list \<Rightarrow> pyval list \<Rightarrow> error + bytes" where
  "struct_pack env [] [] = Inr []"
| "struct_pack env (f # fs) (v # vs) =
     bindE (pack1 env f v) (\<lambda>b. bindE (struct_pack env fs vs) (\<lambda>bs. Inr (b @ bs)))"
| "struct_pack env _ _ = Inl StructError"

fun unpack_fields :: "env \<Rightarrow> fmt list \<Rightarrow> bytes \<Rightarrow> pyval list" where
  "unpack_fields env [] bs = []"
| "unpack_fields env (f # fs) bs =
     unpack1 env f (take (fmt_size f) bs) # unpack_fields env fs (drop (fmt_size f) bs)"

definition struct_unpack :: "env \<Rightarrow> fmt list \<Rightarrow> bytes \<Rightarrow> error + pyval list" where
  "struct_unpack env fs bs =
     (if length bs = sum_list (map fmt_size fs) then Inr (unpack_fields env fs bs)
      else Inl StructError)"

text \<open>
  \<^verbatim>\<open>str.encode('utf-8')\<close> and \<^verbatim>\<open>bytes.decode('utf-8')\<close>: a \<open>PStr\<close> holds the UTF-8 code
  units, so both keep the bytes; decoding fails on bytes that are not well-formed UTF-8.
\<close>

definition encode_utf8 :: "string \<Rightarrow> bytes" where
  "encode_utf8 s = map (\<lambda>c. of_nat (of_char c)) s"

definition continuation :: "byte \<Rightarrow> bool" where
  "continuation b = (0x80 \<le> b \<and> b \<le> 0xBF)"

fun utf8_valid :: "bytes \<Rightarrow> bool" where
  "utf8_valid [] = True"
| "utf8_valid (b0 # bs) =
     (if b0 \<le> 0x7F then utf8_valid bs
      else if 0xC2 \<le> b0 \<and> b0 \<le> 0xDF then
        (case bs of b1 # r \<Rightarrow> continuation b1 \<and> utf8_valid r | _ \<Rightarrow> False)
      else if 0xE0 \<le> b0 \<and> b0 \<le> 0xEF then
        (case bs of
           b1 # b2 # r \<Rightarrow>
             (if b0 = 0xE0 then 0xA0 \<le> b1 \<and> b1 \<le> 0xBF
              else if b0 = 0xED then 0x80 \<le> b1 \<and> b1 \<le> 0x9F
              else continuation b1) \<and> continuation b2 \<and> utf8_valid r
         | _ \<Rightarrow> False)
      else if 0xF0 \<le> b0 \<and> b0 \<le> 0xF4 then
        (case bs of
           b1 # b2 # b3 # r \<Rightarrow>
             (if b0 = 0xF0 then 0x90 \<le> b1 \<and> b1 \<le> 0xBF
              else if b0 = 0xF4 then 0x80 \<le> b1 \<and> b1 \<le> 0x8F
              else continuation b1) \<and> continuation b2 \<and> continuation b3 \<and> utf8_valid r
         | _ \<Rightarrow> False)
      else False)"

definition decode_utf8 :: "bytes \<Rightarrow> error + string" where
  "decode_utf8 bs =
     (if utf8_valid bs then Inr (map (\<lambda>b. char_of (unat b)) bs) else Inl UnicodeDecodeError)"

section \<open>The primitive codec set\<close>

text \<open>
  The classes \<^verbatim>\<open>_Primitive1\<close> (one per format), \<^verbatim>\<open>_Null\<close>, \<^verbatim>\<open>_String\<close>, \<^verbatim>\<open>_Bytes\<close>,
  \<^verbatim>\<open>_DateTime\<close> and \<^verbatim>\<open>_Guid\<close>, and the table \<^verbatim>\<open>Primitives\<close> of their instances by
  attribute name (\<open>Primitives name = None\<close>: \<^verbatim>\<open>hasattr(Primitives, name)\<close> is false).
\<close>

datatype primitive =
    Primitive1 fmt | Prim_Null | Prim_String | Prim_Bytes | Prim_DateTime | Prim_Guid

definition Primitives :: "string \<Rightarrow> primitive option" where
  "Primitives = map_of
     [(''Int8'', Primitive1 Fmt_b), (''SByte'', Primitive1 Fmt_b),
      (''Int16'', Primitive1 Fmt_h), (''Int32'', Primitive1 Fmt_i),
      (''Int64'', Primitive1 Fmt_q), (''UInt8'', Primitive1 Fmt_B),
      (''Char'', Primitive1 Fmt_B), (''Byte'', Primitive1 Fmt_B),
      (''UInt16'', Primitive1 Fmt_H), (''UInt32'', Primitive1 Fmt_I),
      (''UInt64'', Primitive1 Fmt_Q), (''Boolean'', Primitive1 Fmt_bool),
      (''Double'', Primitive1 Fmt_d), (''Float'', Primitive1 Fmt_f),
      (''Null'', Prim_Null), (''String'', Prim_String), (''Bytes'', Prim_Bytes),
      (''ByteString'', Prim_Bytes), (''CharArray'', Prim_String),
      (''DateTime'', Prim_DateTime), (''Guid'', Prim_Guid)]"

definition Primitive1_pack :: "env \<Rightarrow> fmt \<Rightarrow> pyval \<Rightarrow> error + bytes" where
  "Primitive1_pack env f data = struct_pack env [f] [data]"

definition Primitive1_unpack :: "env \<Rightarrow> fmt \<Rightarrow> Buffer \<Rightarrow> error + (pyval \<times> Buffer)" where
  "Primitive1_unpack env f data =
     bindE (read data (int (fmt_size f))) (\<lambda>(bs, data).
     bindE (struct_unpack env [f] bs) (\<lambda>vs.
       case vs of v # _ \<Rightarrow> Inr (v, data) | [] \<Rightarrow> Inl IndexError))"

definition String_pack :: "env \<Rightarrow> pyval \<Rightarrow> error + bytes" where
  "String_pack env string =
     (case string of
        PNone \<Rightarrow> Primitive1_pack env Fmt_i (PInt (- 1))
      | PStr s \<Rightarrow>
          (let b = encode_utf8 s
           in bindE (Primitive1_pack env Fmt_i (PInt (int (length b)))) (\<lambda>l. Inr (l @ b)))
      | PBytes b \<Rightarrow>
          bindE (Primitive1_pack env Fmt_i (PInt (int (length b)))) (\<lambda>l. Inr (l @ b))
      | _ \<Rightarrow> Inl TypeError)"

definition Bytes_pack :: "env \<Rightarrow> pyval \<Rightarrow> error + bytes" where
  "Bytes_pack env data = String_pack env data"

definition Bytes_unpack :: "env \<Rightarrow> Buffer \<Rightarrow> error + (pyval \<times> Buffer)" where
  "Bytes_unpack env data =
     bindE (Primitive1_unpack env Fmt_i data) (\<lambda>(length, data).
       if length = PInt (- 1) then Inr (PNone, data)
       else (case as_int length of
               None \<Rightarrow> Inl TypeError
             | Some n \<Rightarrow> bindE (read data n) (\<lambda>(bs, data). Inr (PBytes bs, data))))"

definition String_unpack :: "env \<Rightarrow> Buffer \<Rightarrow> error + (pyval \<times> Buffer)" where
  "String_unpack env data =
     bindE (Bytes_unpack env data) (\<lambda>(b, data).
       case b of
         PNone \<Rightarrow> Inr (b, data)
       | PBytes bs \<Rightarrow> bindE (decode_utf8 bs) (\<lambda>s. Inr (PStr s, data))
       | _ \<Rightarrow> Inl AttributeError)"

definition DateTime_pack :: "env \<Rightarrow> pyval \<Rightarrow> error + bytes" where
  "DateTime_pack env dt =
     bindE (datetime_to_win_epoch dt) (\<lambda>epch. Primitive1_pack env Fmt_q (PInt epch))"

text \<open>The warning \<open>win_epoch_to_datetime\<close> may log is not part of the decoded value.\<close>

definition DateTime_unpack :: "env \<Rightarrow> Buffer \<Rightarrow> error + (pyval \<times> Buffer)" where
  "DateTime_unpack env data =
     bindE (Primitive1_unpack env Fmt_q data) (\<lambda>(epch, data).
       case as_int epch of
         None \<Rightarrow> Inl TypeError
       | Some e \<Rightarrow> bindE (fst (win_epoch_to_datetime e)) (\<lambda>dt. Inr (PDateTime dt, data)))"

text \<open>
  A UUID's fields are read off its 16 bytes: \<^verbatim>\<open>time_low\<close> (bytes 0-3, big-endian),
  \<^verbatim>\<open>time_mid\<close> (4-5), \<^verbatim>\<open>time_hi_version\<close> (6-7), \<^verbatim>\<open>clock_seq_hi_variant\<close> (8),
  \<^verbatim>\<open>clock_seq_low\<close> (9) and \<^verbatim>\<open>node\<close> (10-15).
\<close>

definition Guid_pack :: "env \<Rightarrow> pyval \<Rightarrow> error + bytes" where
  "Guid_pack env guid =
     (case guid of
        PGuid b \<Rightarrow>
          bindE (Primitive1_pack env Fmt_I (PInt (be_uint (take 4 b)))) (\<lambda>f1.
          bindE (Primitive1_pack env Fmt_H (PInt (be_uint (take 2 (drop 4 b))))) (\<lambda>f2.
          bindE (Primitive1_pack env Fmt_H (PInt (be_uint (take 2 (drop 6 b))))) (\<lambda>f3.
          bindE (Primitive1_pack env Fmt_B (PInt (be_uint (take 1 (drop 8 b))))) (\<lambda>f4a.
          bindE (Primitive1_pack env Fmt_B (PInt (be_uint (take 1 (drop 9 b))))) (\<lambda>f4b.
          bindE (struct_pack env [Fmt_Q] [PInt (be_uint (drop 10 b))]) (\<lambda>q.
            let f4c = take 6 (drop 2 (rev q));
                f4 = f4a @ f4b @ f4c
            in Inr (f1 @ f2 @ f3 @ f4)))))))
      | _ \<Rightarrow> Inl AttributeError)"

definition Guid_unpack :: "env \<Rightarrow> Buffer \<Rightarrow> error + (pyval \<times> Buffer)" where
  "Guid_unpack env data =
     bindE (Primitive1_unpack env Fmt_I data) (\<lambda>(v1, data).
     bindE (Primitive1_unpack env Fmt_H data) (\<lambda>(v2, data).
     bindE (Primitive1_unpack env Fmt_H data) (\<lambda>(v3, data).
     bindE (read data 8) (\<lambda>(f4, data).
       case (as_int v1, as_int v2, as_int v3) of
         (Some a, Some b, Some c) \<Rightarrow>
           Inr (PGuid (rev (le_bytes 4 a) @ rev (le_bytes 2 b) @ rev (le_bytes 2 c) @ f4), data)
       | _ \<Rightarrow> Inl StructError))))"

fun pack :: "env \<Rightarrow> primitive \<Rightarrow> pyval \<Rightarrow> error + bytes" where
  "pack env (Primitive1 f) data = Primitive1_pack env f data"
| "pack env Prim_Null data = Inr []"
| "pack env Prim_String data = String_pack env data"
| "pack env Prim_Bytes data = Bytes_pack env data"
| "pack env Prim_DateTime data = DateTime_pack env data"
| "pack env Prim_Guid data = Guid_pack env data"

fun unpack :: "env \<Rightarrow> primitive \<Rightarrow> Buffer \<Rightarrow> error + (pyval \<times> Buffer)" where
  "unpack env (Primitive1 f) data = Primitive1_unpack env f data"
| "unpack env Prim_Null data = Inr (PNone, data)"
| "unpack env Prim_String data = String_unpack env data"
| "unpack env Prim_Bytes data = Bytes_unpack env data"
| "unpack env Prim_DateTime data = DateTime_unpack env data"
| "unpack env Prim_Guid data = Guid_unpack env data"

text \<open>
  The array codec every primitive inherits from \<^verbatim>\<open>_Primitive\<close>. It is written once,
  over the element codec \<^verbatim>\<open>self.pack\<close> or \<^verbatim>\<open>self.unpack\<close>. \<open>mapE\<close> is a list
  comprehension whose body can raise; \<open>repeat_unpack n\<close> is the comprehension over
  \<^verbatim>\<open>range(n)\<close> that reads one element per round from the cursor.
\<close>

fun mapE :: "('a \<Rightarrow> error + 'b) \<Rightarrow> 'a list \<Rightarrow> error + 'b list" where
  "mapE f [] = Inr []"
| "mapE f (x # xs) = bindE (f x) (\<lambda>y. bindE (mapE f xs) (\<lambda>ys. Inr (y # ys)))"

fun repeat_unpack ::
  "nat \<Rightarrow> (Buffer \<Rightarrow> error + ('a \<times> Buffer)) \<Rightarrow> Buffer \<Rightarrow> error + ('a list \<times> Buffer)" where
  "repeat_unpack 0 f data = Inr ([], data)"
| "repeat_unpack (Suc n) f data =
     bindE (f data) (\<lambda>(x, data).
     bindE (repeat_unpack n f data) (\<lambda>(xs, data). Inr (x # xs, data)))"

definition pack_array :: "env \<Rightarrow> (pyval \<Rightarrow> error + bytes) \<Rightarrow> pyval \<Rightarrow> error + bytes" where
  "pack_array env self_pack array =
     (if array = PNone then Inr [0xff, 0xff, 0xff, 0xff]
      else (case py_seq array of
              None \<Rightarrow> Inl TypeError
            | Some xs \<Rightarrow>
                bindE (mapE self_pack xs) (\<lambda>b.
                bindE (Primitive1_pack env Fmt_i (PInt (int (length xs)))) (\<lambda>l.
                  Inr (concat (l # b))))))"

definition unpack_array ::
  "env \<Rightarrow> (Buffer \<Rightarrow> error + (pyval \<times> Buffer)) \<Rightarrow> Buffer \<Rightarrow> error + (pyval \<times> Buffer)" where
  "unpack_array env self_unpack data =
     bindE (Primitive1_unpack env Fmt_i data) (\<lambda>(length, data).
       if length = PInt (- 1) then Inr (PNone, data)
       else if length = PInt 0 then Inr (PList [], data)
       else (case as_int length of
               None \<Rightarrow> Inl TypeError
             | Some n \<Rightarrow>
                 bindE (repeat_unpack (nat n) self_unpack data) (\<lambda>(xs, data).
                   Inr (PList xs, data))))"

section \<open>Attributes of structured records\<close>

text \<open>
  \<^verbatim>\<open>getattr\<close> and \<^verbatim>\<open>setattr\<close> on an instance of a structured-record class, and the two
  integer expressions the record codec evaluates on a container field:
  \<^verbatim>\<open>test_bit(val, idx)\<close> and \<^verbatim>\<open>container_val | 1 << idx\<close>. A shift by a negative count
  is a ValueError; a value that is not an integer is a TypeError.
\<close>

fun assign :: "string \<Rightarrow> pyval \<Rightarrow> (string \<times> pyval) list \<Rightarrow> (string \<times> pyval) list" where
  "assign k v [] = [(k, v)]"
| "assign k v ((k', v') # xs) = (if k = k' then (k, v) # xs else (k', v') # assign k v xs)"

definition getattr :: "pyval \<Rightarrow> string \<Rightarrow> error + pyval" where
  "getattr obj name =
     (case obj of
        PObject cls tys sw attrs \<Rightarrow>
          (case map_of attrs name of None \<Rightarrow> Inl AttributeError | Some v \<Rightarrow> Inr v)
      | _ \<Rightarrow> Inl AttributeError)"

definition setattr :: "pyval \<Rightarrow> string \<Rightarrow> pyval \<Rightarrow> pyval" where
  "setattr obj name v =
     (case obj of
        PObject cls tys sw attrs \<Rightarrow> PObject cls tys sw (assign name v attrs)
      | _ \<Rightarrow> obj)"

definition py_test_bit :: "pyval \<Rightarrow> int \<Rightarrow> error + int" where
  "py_test_bit val idx =
     (if idx < 0 then Inl ValueError
      else (case as_int val of
              None \<Rightarrow> Inl TypeError
            | Some v \<Rightarrow> Inr (test_bit v (nat idx))))"

definition py_or_shift :: "pyval \<Rightarrow> int \<Rightarrow> error + pyval" where
  "py_or_shift container_val idx =
     (if idx < 0 then Inl ValueError
      else (case as_int container_val of
              None \<Rightarrow> Inl TypeError
            | Some v \<Rightarrow> Inr (PInt (v OR push_bit (nat idx) 1))))"

text \<open>\<^verbatim>\<open>obj.__class__.__name__\<close>.\<close>

fun class_name :: "pyval \<Rightarrow> string" where
  "class_name PNone = ''NoneType''"
| "class_name (PBool b) = ''bool''"
| "class_name (PInt i) = ''int''"
| "class_name (PFloat w) = ''float''"
| "class_name (PStr s) = ''str''"
| "class_name (PBytes bs) = ''bytes''"
| "class_name (PList xs) = ''list''"
| "class_name (PTuple xs) = ''tuple''"
| "class_name (PDateTime us) = ''datetime''"
| "class_name (PGuid bs) = ''UUID''"
| "class_name (PEnum v) = ''IntEnum''"
| "class_name (PClass c) = ''type''"
| "class_name PBuffer = ''Buffer''"
| "class_name (PNodeId t ns ident uri si) = ''NodeId''"
| "class_name (PVariant vt v ia dims) = ''Variant''"
| "class_name (PExtensionObject t e b) = ''ExtensionObject''"
| "class_name (PHeader mt ct bs ps ci) = ''Header''"
| "class_name (PObject cls tys sw attrs) = cls"

section \<open>The NodeId codec\<close>

text \<open>
  \<open>NodeIdType_value\<close> is \<^verbatim>\<open>.value\<close> of a member and \<open>NodeIdType_of\<close> the call
  \<^verbatim>\<open>ua.NodeIdType(n)\<close>: looking an enumeration up by a value that no member has raises
  ValueError.
\<close>

fun NodeIdType_value :: "NodeIdType \<Rightarrow> int" where
  "NodeIdType_value TwoByte = 0"
| "NodeIdType_value FourByte = 1"
| "NodeIdType_value Numeric = 2"
| "NodeIdType_value String = 3"
| "NodeIdType_value Guid = 4"
| "NodeIdType_value ByteString = 5"

definition NodeIdType_of :: "int \<Rightarrow> error + NodeIdType" where
  "NodeIdType_of n =
     (if n = 0 then Inr TwoByte
      else if n = 1 then Inr FourByte
      else if n = 2 then Inr Numeric
      else if n = 3 then Inr String
      else if n = 4 then Inr Guid
      else if n = 5 then Inr ByteString
      else Inl ValueError)"

text \<open>
  Modelled from the spec: \<^verbatim>\<open>ua.NodeId()\<close>, the zero NodeId of the data-model package
  (TwoByte, NamespaceIndex 0, Identifier 0, NamespaceUri and ServerIndex absent).
\<close>

definition NodeId_new :: pyval where
  "NodeId_new = PNodeId TwoByte (PInt 0) (PInt 0) PNone PNone"

text \<open>\<^verbatim>\<open>ord\<close> of a bytes object of length one.\<close>

definition py_ord :: "bytes \<Rightarrow> error + int" where
  "py_ord bs = (case bs of [b] \<Rightarrow> Inr (uint b) | _ \<Rightarrow> Inl TypeError)"

text \<open>
  The last branch of \<open>nodeid_to_binary\<close> is the source's \<^verbatim>\<open>else\<close>: it is kept, and no
  member of the enumeration reaches it.
\<close>

definition nodeid_to_binary :: "env \<Rightarrow> pyval \<Rightarrow> error + bytes" where
  "nodeid_to_binary env nodeid =
     (case nodeid of
        PNodeId t ns ident uri si \<Rightarrow>
          if t = TwoByte then
            struct_pack env [Fmt_B, Fmt_B] [PInt (NodeIdType_value t), ident]
          else if t = FourByte then
            struct_pack env [Fmt_B, Fmt_B, Fmt_H] [PInt (NodeIdType_value t), ns, ident]
          else if t = Numeric then
            struct_pack env [Fmt_B, Fmt_H, Fmt_I] [PInt (NodeIdType_value t), ns, ident]
          else if t = String then
            bindE (struct_pack env [Fmt_B, Fmt_H] [PInt (NodeIdType_value t), ns]) (\<lambda>h.
            bindE (pack env Prim_String ident) (\<lambda>b. Inr (h @ b)))
          else if t = ByteString then
            bindE (struct_pack env [Fmt_B, Fmt_H] [PInt (NodeIdType_value t), ns]) (\<lambda>h.
            bindE (pack env Prim_Bytes ident) (\<lambda>b. Inr (h @ b)))
          else if t = Guid then
            bindE (struct_pack env [Fmt_B, Fmt_H] [PInt (NodeIdType_value t), ns]) (\<lambda>h.
            bindE (pack env Prim_Guid ident) (\<lambda>b. Inr (h @ b)))
          else
            bindE (struct_pack env [Fmt_B, Fmt_H] [PInt (NodeIdType_value t), ns]) (\<lambda>h.
            bindE (case method_to_binary env ident of
                     None \<Rightarrow> Inl AttributeError
                   | Some r \<Rightarrow> r) (\<lambda>b. Inr (h @ b)))
      | _ \<Rightarrow> Inl AttributeError)"

definition nodeid_from_binary :: "env \<Rightarrow> Buffer \<Rightarrow> error + (pyval \<times> Buffer)" where
  "nodeid_from_binary env data =
     (case NodeId_new of
        PNodeId t0 ns0 ident0 uri0 si0 \<Rightarrow>
          bindE (read data 1) (\<lambda>(b, data).
          bindE (py_ord b) (\<lambda>encoding.
          bindE (NodeIdType_of (encoding AND 0x3F)) (\<lambda>t.
          bindE
            (if t = TwoByte then
               bindE (read data 1) (\<lambda>(b, data).
               bindE (py_ord b) (\<lambda>i. Inr (ns0, PInt i, data)))
             else if t = FourByte then
               bindE (read data 3) (\<lambda>(bs, data).
               bindE (struct_unpack env [Fmt_B, Fmt_H] bs) (\<lambda>vs.
                 case vs of [ns, ident] \<Rightarrow> Inr (ns, ident, data) | _ \<Rightarrow> Inl ValueError))
             else if t = Numeric then
               bindE (read data 6) (\<lambda>(bs, data).
               bindE (struct_unpack env [Fmt_H, Fmt_I] bs) (\<lambda>vs.
                 case vs of [ns, ident] \<Rightarrow> Inr (ns, ident, data) | _ \<Rightarrow> Inl ValueError))
             else if t = String then
               bindE (unpack env (Primitive1 Fmt_H) data) (\<lambda>(ns, data).
               bindE (unpack env Prim_String data) (\<lambda>(ident, data). Inr (ns, ident, data)))
             else if t = ByteString then
               bindE (unpack env (Primitive1 Fmt_H) data) (\<lambda>(ns, data).
               bindE (unpack env Prim_Bytes data) (\<lambda>(ident, data). Inr (ns, ident, data)))
             else if t = Guid then
               bindE (unpack env (Primitive1 Fmt_H) data) (\<lambda>(ns, data).
               bindE (unpack env Prim_Guid data) (\<lambda>(ident, data). Inr (ns, ident, data)))
             else Inl UaError)
            (\<lambda>(ns, ident, data).
          bindE (if test_bit encoding 7 \<noteq> 0 then unpack env Prim_String data
                 else Inr (uri0, data)) (\<lambda>(uri, data).
          bindE (if test_bit encoding 6 \<noteq> 0 then unpack env (Primitive1 Fmt_I) data
                 else Inr (si0, data)) (\<lambda>(si, data).
            Inr (PNodeId t ns ident uri si, data)))))))
      | _ \<Rightarrow> Inl TypeError)"

section \<open>Reshaping a flat array\<close>

text \<open>
  \<open>reshape\<close> appends to the list it is given, so it returns the new contents of that
  list next to its result. \<open>subsize_of\<close> is the first loop (the product of the later
  extents, a zero counted as 1), \<open>reshape_pad\<close> the \<^verbatim>\<open>while\<close> loop that appends empty
  lists, \<open>py_range\<close> is \<^verbatim>\<open>range(0, stop, step)\<close> for a step that is not zero and
  \<open>py_slice\<close> is \<^verbatim>\<open>flat[i: i + subsize]\<close> for \<open>i\<close> within the list. A slice is a new
  list: what the recursive call appends to it does not reach \<open>flat\<close>.
  \<open>reshape_dims flat d0 subdims\<close> is the body for \<^verbatim>\<open>dims = [d0] + subdims\<close>; on an
  empty \<^verbatim>\<open>dims\<close> the source fails at \<^verbatim>\<open>dims[0]\<close>.
\<close>

definition subsize_of :: "int list \<Rightarrow> int" where
  "subsize_of subdims = fold (\<lambda>i subsize. subsize * (if i = 0 then 1 else i)) subdims 1"

function reshape_pad :: "int \<Rightarrow> pyval list \<Rightarrow> pyval list" where
  "reshape_pad n flat =
     (if n > int (length flat) then reshape_pad n (flat @ [PList []]) else flat)"
  by pat_completeness auto
termination
  by (relation "measure (\<lambda>(n, flat). nat (n - int (length flat)))") auto

definition py_range :: "int \<Rightarrow> int \<Rightarrow> int list" where
  "py_range stop step =
     (if step > 0 then map (\<lambda>k. int k * step) [0..<nat ((stop + step - 1) div step)]
      else [])"

definition py_slice :: "'a list \<Rightarrow> int \<Rightarrow> int \<Rightarrow> 'a list" where
  "py_slice xs i j = take (nat (j - i)) (drop (nat i) xs)"

fun reshape_dims :: "pyval list \<Rightarrow> int \<Rightarrow> int list \<Rightarrow> pyval list \<times> pyval list" where
  "reshape_dims flat d0 subdims =
     (let subsize = subsize_of subdims;
          flat = reshape_pad (d0 * subsize) flat
      in if subdims = [] \<or> subdims = [0] then (flat, flat)
         else (case subdims of
                 [] \<Rightarrow> (flat, flat)
               | d1 # rest \<Rightarrow>
                   (map (\<lambda>i. PList (fst (reshape_dims (py_slice flat i (i + subsize)) d1 rest)))
                      (py_range (int (length flat)) subsize),
                    flat)))"

definition reshape :: "pyval list \<Rightarrow> int list \<Rightarrow> error + (pyval list \<times> pyval list)" where
  "reshape flat dims =
     (case dims of
        [] \<Rightarrow> Inl IndexError
      | d0 # subdims \<Rightarrow> Inr (reshape_dims flat d0 subdims))"

text \<open>
  \<open>reshape\<close> on the values \<open>variant_from_binary\<close> has decoded: a list and a list of
  integers; anything else has no \<^verbatim>\<open>len\<close> or cannot be sliced.
\<close>

fun int_list :: "pyval list \<Rightarrow> int list option" where
  "int_list [] = Some []"
| "int_list (v # vs) =
     (case (as_int v, int_list vs) of (Some i, Some is) \<Rightarrow> Some (i # is) | _ \<Rightarrow> None)"

definition reshape_value :: "pyval \<Rightarrow> pyval \<Rightarrow> error + pyval" where
  "reshape_value flat dims =
     (case (flat, dims) of
        (PList xs, PList ds) \<Rightarrow>
          (case int_list ds of
             None \<Rightarrow> Inl TypeError
           | Some is \<Rightarrow> bindE (reshape xs is) (\<lambda>(r, xs'). Inr (PList r)))
      | _ \<Rightarrow> Inl TypeError)"

section \<open>The ExtensionObject decoder and the type dispatcher for decoding\<close>

text \<open>
  Modelled from the spec: \<^verbatim>\<open>ua.ExtensionObject()\<close>, a fresh generic carrier (TypeId the
  zero NodeId, Encoding 0, no Body).
\<close>

definition ExtensionObject_new :: pyval where
  "ExtensionObject_new = PExtensionObject NodeId_new (PInt 0) PNone"

text \<open>
  The body, when the Encoding byte announces one, is \<open>Some\<close> of its bytes: the cursor
  \<^verbatim>\<open>Buffer(b"")\<close> for a length below 1, else the copied view, after which the main
  cursor skips the same bytes. \<^verbatim>\<open>typeid.Identifier == 0\<close> holds for the integer zero.
\<close>

definition extensionobject_from_binary :: "env \<Rightarrow> Buffer \<Rightarrow> error + (pyval \<times> Buffer)" where
  "extensionobject_from_binary env data =
     bindE (nodeid_from_binary env data) (\<lambda>(typeid, data).
     bindE (read data 1) (\<lambda>(b, data).
     bindE (py_ord b) (\<lambda>Encoding.
     bindE
       (if Encoding AND push_bit 0 1 \<noteq> 0 then
          bindE (unpack env (Primitive1 Fmt_i) data) (\<lambda>(length, data).
            case as_int length of
              None \<Rightarrow> Inl TypeError
            | Some n \<Rightarrow>
                if n < 1 then Inr (Some [], data)
                else bindE (skip data n) (\<lambda>data'. Inr (Some (copy data n), data')))
        else Inr (None, data))
       (\<lambda>(body, data).
          case typeid of
            PNodeId t ns ident uri si \<Rightarrow>
              if as_int ident = Some 0 then Inr (PNone, data)
              else (case extension_object_classes env typeid of
                      Some klass \<Rightarrow>
                        (case body of
                           None \<Rightarrow> Inl UaError
                         | Some b \<Rightarrow> bindE (klass_from_binary env klass b) (\<lambda>v. Inr (v, data)))
                    | None \<Rightarrow>
                        (case ExtensionObject_new of
                           PExtensionObject t0 e0 b0 \<Rightarrow>
                             Inr (PExtensionObject typeid (PInt Encoding)
                                    (case body of None \<Rightarrow> b0 | Some b \<Rightarrow> PBytes b), data)
                         | _ \<Rightarrow> Inl TypeError))
          | _ \<Rightarrow> Inl AttributeError))))"

definition unpack_uatype :: "env \<Rightarrow> VariantType \<Rightarrow> Buffer \<Rightarrow> error + (pyval \<times> Buffer)" where
  "unpack_uatype env vtype data =
     (case Primitives (vt_name vtype) of
        Some st \<Rightarrow> unpack env st data
      | None \<Rightarrow>
          if vt_value vtype > 25 then unpack env Prim_Bytes data
          else if vt_name vtype = ''ExtensionObject'' then extensionobject_from_binary env data
          else (case uatypes_from_binary env (vt_name vtype) of
                  Some klass_from \<Rightarrow> klass_from data
                | None \<Rightarrow> Inl UaError))"

definition unpack_uatype_array :: "env \<Rightarrow> VariantType \<Rightarrow> Buffer \<Rightarrow> error + (pyval \<times> Buffer)" where
  "unpack_uatype_array env vtype data =
     (case Primitives (vt_name vtype) of
        Some st \<Rightarrow> unpack_array env (unpack env st) data
      | None \<Rightarrow>
          bindE (unpack env (Primitive1 Fmt_i) data) (\<lambda>(length, data).
            if length = PInt (- 1) then Inr (PNone, data)
            else (case as_int length of
                    None \<Rightarrow> Inl TypeError
                  | Some n \<Rightarrow>
                      bindE (repeat_unpack (nat n) (unpack_uatype env vtype) data) (\<lambda>(xs, data).
                        Inr (PList xs, data)))))"

section \<open>The Variant decoder\<close>

text \<open>
  \<^verbatim>\<open>ua.VariantType.Int32\<close>; the dispatcher looks at its name only. The constructor
  \<^verbatim>\<open>ua.Variant(value, vtype, dimensions, is_array=array)\<close> stores its four arguments.
\<close>

definition VariantType_Int32 :: VariantType where
  "VariantType_Int32 = VariantType ''Int32'' 6"

definition variant_from_binary :: "env \<Rightarrow> Buffer \<Rightarrow> error + (pyval \<times> Buffer)" where
  "variant_from_binary env data =
     bindE (read data 1) (\<lambda>(b, data).
     bindE (py_ord b) (\<lambda>encoding.
       let int_type = encoding AND 0x3F
       in bindE (datatype_to_varianttype env int_type) (\<lambda>vtype.
          bindE (if test_bit encoding 7 \<noteq> 0 then
                   bindE (unpack_uatype_array env vtype data) (\<lambda>(v, data). Inr (v, True, data))
                 else
                   bindE (unpack_uatype env vtype data) (\<lambda>(v, data). Inr (v, False, data)))
            (\<lambda>(v, array, data).
          bindE (if test_bit encoding 6 \<noteq> 0 then
                   bindE (unpack_uatype_array env VariantType_Int32 data) (\<lambda>(dimensions, data).
                   bindE (reshape_value v dimensions) (\<lambda>v. Inr (v, dimensions, data)))
                 else Inr (v, PNone, data))
            (\<lambda>(v, dimensions, data).
              Inr (PVariant vtype v array dimensions, data))))))"

section \<open>The generic decoder\<close>

text \<open>
  \<open>from_binary\<close> and \<open>struct_from_binary\<close> call each other through the type tags of
  record classes, for as long as the classes nest: the first argument of the model is
  the number of nested calls Python still allows, and at 0 the call is a
  RecursionError. Both take their Python arguments \<^verbatim>\<open>uatype\<close> (or \<^verbatim>\<open>objtype\<close>) and
  \<^verbatim>\<open>data\<close> as values, and the state of the one cursor of the call as \<open>buf\<close>. An
  operation on \<^verbatim>\<open>data\<close> works on \<open>buf\<close> when \<^verbatim>\<open>data\<close> is the cursor, and is an
  AttributeError when it is another value (\<open>with_buffer\<close>). Calling a value that is
  neither a class nor a class name is a TypeError: a cursor is not callable.
\<close>

definition with_buffer ::
  "pyval \<Rightarrow> (Buffer \<Rightarrow> error + (pyval \<times> Buffer)) \<Rightarrow> Buffer \<Rightarrow> error + (pyval \<times> Buffer)" where
  "with_buffer data f buf = (if data = PBuffer then f buf else Inl AttributeError)"

definition startswith :: "string \<Rightarrow> string \<Rightarrow> bool" where
  "startswith s p = (take (length p) s = p)"

text \<open>
  The loop of \<open>struct_from_binary\<close> over the declared fields; \<open>fb\<close> is \<open>from_binary\<close>
  at the depth of the call. A field with a switch whose bit is not set in the current
  value of its container is passed over (\<^verbatim>\<open>continue\<close>).
\<close>

fun struct_from_binary_fields ::
  "(pyval \<Rightarrow> pyval \<Rightarrow> Buffer \<Rightarrow> error + (pyval \<times> Buffer)) \<Rightarrow> pyval \<Rightarrow> pyval
     \<Rightarrow> (string \<times> string) list \<Rightarrow> Buffer \<Rightarrow> error + (pyval \<times> Buffer)" where
  "struct_from_binary_fields fb data obj [] buf = Inr (obj, buf)"
| "struct_from_binary_fields fb data obj ((name, uatype) # flds) buf =
     bindE
       (case obj of
          PObject cls tys (Some switches) attrs \<Rightarrow>
            (case map_of switches name of
               Some (container_name, idx) \<Rightarrow>
                 bindE (getattr obj container_name) (\<lambda>val.
                 bindE (py_test_bit val idx) (\<lambda>bit_val. Inr (bit_val = 0)))
             | None \<Rightarrow> Inr False)
        | _ \<Rightarrow> Inr False)
       (\<lambda>skipped.
          if skipped then struct_from_binary_fields fb data obj flds buf
          else bindE (fb (PStr uatype) data buf) (\<lambda>(val, buf).
                 struct_from_binary_fields fb data (setattr obj name val) flds buf))"

fun from_binary :: "nat \<Rightarrow> env \<Rightarrow> pyval \<Rightarrow> pyval \<Rightarrow> Buffer \<Rightarrow> error + (pyval \<times> Buffer)"
  and struct_from_binary ::
    "nat \<Rightarrow> env \<Rightarrow> pyval \<Rightarrow> pyval \<Rightarrow> Buffer \<Rightarrow> error + (pyval \<times> Buffer)" where
  "from_binary 0 env uatype data buf = Inl RecursionError"
| "from_binary (Suc n) env uatype data buf =
     (case (case uatype of
              PStr s \<Rightarrow> if startswith s ''ListOf'' then Some s else None
            | _ \<Rightarrow> None) of
        Some s \<Rightarrow>
          bindE (with_buffer data (unpack env (Primitive1 Fmt_i)) buf) (\<lambda>(size, buf).
            case as_int size of
              None \<Rightarrow> Inl TypeError
            | Some k \<Rightarrow>
                bindE (repeat_unpack (nat k) (from_binary n env data (PStr (drop 6 s))) buf)
                  (\<lambda>(res, buf). Inr (PList res, buf)))
      | None \<Rightarrow>
          (case (case uatype of PStr s \<Rightarrow> Primitives s | _ \<Rightarrow> None) of
             Some st \<Rightarrow> with_buffer data (unpack env st) buf
           | None \<Rightarrow>
               if uatype = PClass ''NodeId'' \<or> uatype = PStr ''NodeId'' then
                 with_buffer data (nodeid_from_binary env) buf
               else if uatype = PClass ''Variant'' \<or> uatype = PStr ''Variant'' then
                 with_buffer data (variant_from_binary env) buf
               else struct_from_binary n env uatype data buf))"
| "struct_from_binary 0 env objtype data buf = Inl RecursionError"
| "struct_from_binary (Suc n) env objtype data buf =
     bindE
       (case objtype of
          PStr s \<Rightarrow> (case ua_new env s of None \<Rightarrow> Inl AttributeError | Some obj \<Rightarrow> Inr obj)
        | PClass c \<Rightarrow> (case ua_new env c of None \<Rightarrow> Inl AttributeError | Some obj \<Rightarrow> Inr obj)
        | _ \<Rightarrow> Inl TypeError)
       (\<lambda>obj.
          case obj of
            PObject cls tys switches attrs \<Rightarrow>
              struct_from_binary_fields (from_binary n env) data obj tys buf
          | _ \<Rightarrow> Inl AttributeError)"

section \<open>The message header encoder\<close>

text \<open>
  Modelled from the spec: the members SecureOpen, SecureClose and SecureMessage of
  \<^verbatim>\<open>ua.MessageType\<close>, by their wire codes OPN, CLO and MSG.
\<close>

definition secure_message_types :: "pyval list" where
  "secure_message_types =
     [PBytes [0x4F, 0x50, 0x4E], PBytes [0x43, 0x4C, 0x4F], PBytes [0x4D, 0x53, 0x47]]"

definition header_to_binary :: "env \<Rightarrow> pyval \<Rightarrow> error + bytes" where
  "header_to_binary env hdr =
     (case hdr of
        PHeader MessageType ChunkType body_size packet_size ChannelId \<Rightarrow>
          bindE (struct_pack env [Fmt_s 3, Fmt_s 1] [MessageType, ChunkType]) (\<lambda>b1.
            case as_int body_size of
              None \<Rightarrow> Inl TypeError
            | Some bsz \<Rightarrow>
                let size = bsz + 8;
                    size = (if MessageType \<in> set secure_message_types then size + 4 else size)
                in bindE (pack env (Primitive1 Fmt_I) (PInt size)) (\<lambda>b2.
                     if MessageType \<in> set secure_message_types then
                       bindE (pack env (Primitive1 Fmt_I) ChannelId) (\<lambda>b3. Inr (b1 @ b2 @ b3))
                     else Inr (b1 @ b2)))
      | _ \<Rightarrow> Inl AttributeError)"

section \<open>The encoders\<close>

text \<open>
  Two encoders write to the object they are given: \<open>struct_to_binary\<close> sets switch
  bits in container fields and \<open>variant_to_binary\<close> sets \<^verbatim>\<open>is_array\<close>. Such an encoder,
  and each one that hands its own argument on to one of them, returns the new state of
  that object next to its outcome, also when the outcome is an exception. An object
  reached through an attribute or an element of the argument is another object: what
  the encoder called on it writes to it is that call's effect, and is not copied into
  the state returned for the outer object.

  \<open>set_switches\<close> is the first loop of \<open>struct_to_binary\<close>, over the items of
  \<^verbatim>\<open>ua_switches\<close>; it stops at the first exception and keeps what it has written.
\<close>

fun set_switches :: "pyval \<Rightarrow> (string \<times> string \<times> int) list \<Rightarrow> pyval \<times> error option" where
  "set_switches obj [] = (obj, None)"
| "set_switches obj ((name, container_name, idx) # switches) =
     (case getattr obj name of
        Inl e \<Rightarrow> (obj, Some e)
      | Inr member \<Rightarrow>
          if member \<noteq> PNone then
            (case getattr obj container_name of
               Inl e \<Rightarrow> (obj, Some e)
             | Inr container_val \<Rightarrow>
                 (case py_or_shift container_val idx of
                    Inl e \<Rightarrow> (obj, Some e)
                  | Inr container_val \<Rightarrow>
                      set_switches (setattr obj container_name container_val) switches))
          else set_switches obj switches)"

text \<open>
  The encoders call each other for as long as the values nest. As for the decoders,
  the first argument is the number of nested calls Python still allows. The body of
  each encoder is written once, over the encoders it calls (its first parameters,
  named as in the source); the encoders themselves are these bodies at every depth.
\<close>

definition to_binary_body ::
  "(pyval \<Rightarrow> pyval \<times> (error + bytes)) \<Rightarrow> (pyval \<Rightarrow> pyval \<times> (error + bytes))
     \<Rightarrow> (pyval \<Rightarrow> pyval \<times> (error + bytes))
     \<Rightarrow> env \<Rightarrow> pyval \<Rightarrow> pyval \<Rightarrow> pyval \<times> (error + bytes)" where
  "to_binary_body variant_to_binary struct_to_binary extensionobject_to_binary env val uatype =
     (case (case uatype of PStr s \<Rightarrow> Primitives s | _ \<Rightarrow> None) of
        Some st \<Rightarrow> (val, pack env st val)
      | None \<Rightarrow>
          (case val of
             PEnum v \<Rightarrow> (val, pack env (Primitive1 Fmt_I) (PInt v))
           | PNodeId t ns ident uri si \<Rightarrow> (val, nodeid_to_binary env val)
           | PHeader mt ct bs ps ci \<Rightarrow> (val, header_to_binary env val)
           | PVariant vt v ia dims \<Rightarrow> variant_to_binary val
           | PObject cls tys switches attrs \<Rightarrow> struct_to_binary val
           | _ \<Rightarrow>
               if uatype = PStr ''ExtensionObject'' then extensionobject_to_binary val
               else (val, Inl ValueError)))"

definition struct_to_binary_body ::
  "(pyval \<Rightarrow> string \<Rightarrow> error + bytes) \<Rightarrow> (pyval \<Rightarrow> pyval \<Rightarrow> pyval \<times> (error + bytes))
     \<Rightarrow> pyval \<Rightarrow> pyval \<times> (error + bytes)" where
  "struct_to_binary_body list_to_binary to_binary obj =
     (case obj of
        PObject cls tys switches attrs \<Rightarrow>
          (case (case switches of
                   Some items \<Rightarrow> set_switches obj items
                 | None \<Rightarrow> (obj, None)) of
             (obj, Some e) \<Rightarrow> (obj, Inl e)
           | (obj, None) \<Rightarrow>
               (obj,
                bindE
                  (mapE
                     (\<lambda>(name, uatype).
                        bindE (getattr obj name) (\<lambda>val.
                          if startswith uatype ''ListOf'' then
                            list_to_binary val (drop 6 uatype)
                          else if (case switches of
                                     Some items \<Rightarrow> val = PNone \<and> name \<in> fst ` set items
                                   | None \<Rightarrow> False)
                          then Inr []
                          else snd (to_binary val (PStr uatype))))
                     tys)
                  (\<lambda>packet. Inr (concat packet))))
      | _ \<Rightarrow> (obj, Inl AttributeError))"

definition list_to_binary_body ::
  "(pyval \<Rightarrow> pyval \<Rightarrow> pyval \<times> (error + bytes)) \<Rightarrow> env \<Rightarrow> pyval \<Rightarrow> string \<Rightarrow> error + bytes" where
  "list_to_binary_body to_binary env val uatype =
     (if val = PNone then pack env (Primitive1 Fmt_i) (PInt (- 1))
      else (case py_seq val of
              None \<Rightarrow> Inl TypeError
            | Some els \<Rightarrow>
                bindE (pack env (Primitive1 Fmt_i) (PInt (int (length els)))) (\<lambda>l.
                bindE (mapE (\<lambda>el. snd (to_binary el (PStr uatype))) els) (\<lambda>ps.
                  Inr (concat (l # ps))))))"

definition extensionobject_to_binary_body ::
  "(pyval \<Rightarrow> pyval \<Rightarrow> pyval \<times> (error + bytes)) \<Rightarrow> env \<Rightarrow> pyval \<Rightarrow> pyval \<times> (error + bytes)" where
  "extensionobject_to_binary_body to_binary env obj =
     (case obj of
        PExtensionObject t e b \<Rightarrow>
          (obj, case method_to_binary env obj of None \<Rightarrow> Inl AttributeError | Some r \<Rightarrow> r)
      | _ \<Rightarrow>
          (case (if obj = PNone then (obj, Inr (NodeId_new, 0, PNone))
                 else (case extension_object_ids env (class_name obj) of
                         None \<Rightarrow> (obj, Inl KeyError)
                       | Some TypeId \<Rightarrow>
                           (case to_binary obj PNone of
                              (obj, r) \<Rightarrow>
                                (obj, bindE r (\<lambda>Body. Inr (TypeId, 1, PBytes Body)))))) of
             (obj, Inl e) \<Rightarrow> (obj, Inl e)
           | (obj, Inr (TypeId, Encoding, Body)) \<Rightarrow>
               (obj,
                bindE (snd (to_binary TypeId PNone)) (\<lambda>p1.
                bindE (pack env (Primitive1 Fmt_B) (PInt Encoding)) (\<lambda>p2.
                  if truthy Body then bindE (pack env Prim_Bytes Body) (\<lambda>p3. Inr (p1 @ p2 @ p3))
                  else Inr (p1 @ p2))))))"

definition variant_to_binary_body ::
  "(VariantType \<Rightarrow> pyval \<Rightarrow> error + bytes) \<Rightarrow> (VariantType \<Rightarrow> pyval \<Rightarrow> error + bytes)
     \<Rightarrow> env \<Rightarrow> pyval \<Rightarrow> pyval \<times> (error + bytes)" where
  "variant_to_binary_body pack_uatype_array pack_uatype env var =
     (case var of
        PVariant vt v is_array Dimensions \<Rightarrow>
          (let encoding = vt_value vt AND 0x3F
           in if is_array \<or> is_list_or_tuple v then
                (PVariant vt v True Dimensions,
                 let encoding = set_bit encoding 7;
                     encoding = (if Dimensions \<noteq> PNone then set_bit encoding 6 else encoding)
                 in bindE (pack env (Primitive1 Fmt_B) (PInt encoding)) (\<lambda>b1.
                    bindE (flatten env v) (\<lambda>flat.
                    bindE (pack_uatype_array vt flat) (\<lambda>b2.
                      if Dimensions \<noteq> PNone then
                        bindE (pack_uatype_array VariantType_Int32 Dimensions) (\<lambda>b3.
                          Inr (b1 @ b2 @ b3))
                      else Inr (b1 @ b2)))))
              else
                (var,
                 bindE (pack env (Primitive1 Fmt_B) (PInt encoding)) (\<lambda>b1.
                 bindE (pack_uatype vt v) (\<lambda>b2. Inr (b1 @ b2)))))
      | _ \<Rightarrow> (var, Inl AttributeError))"

definition pack_uatype_array_body ::
  "(VariantType \<Rightarrow> pyval \<Rightarrow> error + bytes) \<Rightarrow> env \<Rightarrow> VariantType \<Rightarrow> pyval \<Rightarrow> error + bytes" where
  "pack_uatype_array_body pack_uatype env vtype array =
     (if array = PNone then Inr [0xff, 0xff, 0xff, 0xff]
      else (case py_seq array of
              None \<Rightarrow> Inl TypeError
            | Some xs \<Rightarrow>
                bindE (mapE (pack_uatype vtype) xs) (\<lambda>b.
                bindE (pack env (Primitive1 Fmt_i) (PInt (int (length xs)))) (\<lambda>l.
                  Inr (concat (l # b))))))"

definition pack_uatype_body ::
  "(pyval \<Rightarrow> pyval \<times> (error + bytes)) \<Rightarrow> env \<Rightarrow> VariantType \<Rightarrow> pyval \<Rightarrow> error + bytes" where
  "pack_uatype_body extensionobject_to_binary env vtype v =
     (case Primitives (vt_name vtype) of
        Some st \<Rightarrow> pack env st v
      | None \<Rightarrow>
          if vt_value vtype > 25 then pack env Prim_Bytes v
          else if vt_name vtype = ''ExtensionObject'' then snd (extensionobject_to_binary v)
          else (case method_to_binary env v of
                  None \<Rightarrow> Inl UaError
                | Some r \<Rightarrow> if r = Inl AttributeError then Inl UaError else r))"

fun to_binary :: "nat \<Rightarrow> env \<Rightarrow> pyval \<Rightarrow> pyval \<Rightarrow> pyval \<times> (error + bytes)"
  and struct_to_binary :: "nat \<Rightarrow> env \<Rightarrow> pyval \<Rightarrow> pyval \<times> (error + bytes)"
  and list_to_binary :: "nat \<Rightarrow> env \<Rightarrow> pyval \<Rightarrow> string \<Rightarrow> error + bytes"
  and extensionobject_to_binary :: "nat \<Rightarrow> env \<Rightarrow> pyval \<Rightarrow> pyval \<times> (error + bytes)"
  and variant_to_binary :: "nat \<Rightarrow> env \<Rightarrow> pyval \<Rightarrow> pyval \<times> (error + bytes)"
  and pack_uatype_array :: "nat \<Rightarrow> env \<Rightarrow> VariantType \<Rightarrow> pyval \<Rightarrow> error + bytes"
  and pack_uatype :: "nat \<Rightarrow> env \<Rightarrow> VariantType \<Rightarrow> pyval \<Rightarrow> error + bytes" where
  "to_binary 0 env = (\<lambda>val uatype. (val, Inl RecursionError))"
| "to_binary (Suc n) env =
     to_binary_body (variant_to_binary n env) (struct_to_binary n env)
       (extensionobject_to_binary n env) env"
| "struct_to_binary 0 env = (\<lambda>obj. (obj, Inl RecursionError))"
| "struct_to_binary (Suc n) env = struct_to_binary_body (list_to_binary n env) (to_binary n env)"
| "list_to_binary 0 env = (\<lambda>val uatype. Inl RecursionError)"
| "list_to_binary (Suc n) env = list_to_binary_body (to_binary n env) env"
| "extensionobject_to_binary 0 env = (\<lambda>obj. (obj, Inl RecursionError))"
| "extensionobject_to_binary (Suc n) env = extensionobject_to_binary_body (to_binary n env) env"
| "variant_to_binary 0 env = (\<lambda>var. (var, Inl RecursionError))"
| "variant_to_binary (Suc n) env =
     variant_to_binary_body (pack_uatype_array n env) (pack_uatype n env) env"
| "pack_uatype_array 0 env = (\<lambda>vtype array. Inl RecursionError)"
| "pack_uatype_array (Suc n) env = pack_uatype_array_body (pack_uatype n env) env"
| "pack_uatype 0 env = (\<lambda>vtype v. Inl RecursionError)"
| "pack_uatype (Suc n) env = pack_uatype_body (extensionobject_to_binary n env) env"



text \<open>
  An environment with empty registries, for running the codec on inputs that do not
  use them.
\<close>

definition env0 :: env where
  "env0 = \<lparr>float_pack = (\<lambda>f v. Inl StructError), float_unpack = (\<lambda>f bs. PFloat 0),
     ua_new = (\<lambda>name. None), uatypes_from_binary = (\<lambda>name. None),
     extension_object_classes = (\<lambda>typeid. None), klass_from_binary = (\<lambda>name body. Inl UaError),
     extension_object_ids = (\<lambda>name. None), datatype_to_varianttype = (\<lambda>i. Inl ValueError),
     flatten = Inr, method_to_binary = (\<lambda>v. None)\<rparr>"

text \<open>
  \<open>switch_is_set obj container_name idx\<close>: \<^verbatim>\<open>test_bit(getattr(obj, container_name), idx)\<close>
  evaluates to a value that is true.
\<close>

definition switch_is_set :: "pyval \<Rightarrow> string \<Rightarrow> int \<Rightarrow> bool" where
  "switch_is_set obj container_name idx =
     (case bindE (getattr obj container_name) (\<lambda>val. py_test_bit val idx) of
        Inr bit_val \<Rightarrow> bit_val \<noteq> 0
      | Inl e \<Rightarrow> False)"

text \<open>
  A record class for running the record codec: a bitmask field \<^verbatim>\<open>Encoding\<close> (a Byte)
  and a field \<^verbatim>\<open>Opt\<close> (an Int32) whose presence is bit 2 of \<^verbatim>\<open>Encoding\<close>.
  \<open>Rec attrs\<close> is an instance with the given attributes, and \<open>env_Rec\<close> the
  environment in which \<^verbatim>\<open>ua.Rec()\<close> is the instance with \<^verbatim>\<open>Encoding = 0\<close> and
  \<^verbatim>\<open>Opt = None\<close>.
\<close>

definition Rec :: "(string \<times> pyval) list \<Rightarrow> pyval" where
  "Rec attrs = PObject ''Rec'' [(''Encoding'', ''Byte''), (''Opt'', ''Int32'')]
     (Some [(''Opt'', ''Encoding'', 2)]) attrs"

definition env_Rec :: env where
  "env_Rec = env0 \<lparr>ua_new :=
     (\<lambda>name. if name = ''Rec'' then Some (Rec [(''Encoding'', PInt 0), (''Opt'', PNone)])
              else None)\<rparr>"

section \<open>Properties\<close>

subsection \<open>Auxiliary facts\<close>

lemma bindE_simps [simp]: "bindE (Inl e) f = Inl e" "bindE (Inr x) f = f x"
  by (simp_all add: bindE_def)

lemma FILETIME_EPOCH_AS_DATETIME_eq: "FILETIME_EPOCH_AS_DATETIME = 50491123200000000"
  by (simp add: FILETIME_EPOCH_AS_DATETIME_def datetime_def ymd2ord_def days_before_year_def
      days_before_month_def)

lemma datetime_max_eq: "datetime_max = 315537897599999999"
  by (simp add: datetime_max_def MAXYEAR_def datetime_def ymd2ord_def days_before_year_def
      days_before_month_def is_leap_def)

lemma le_bytes_Suc: "le_bytes (Suc n) v = word_of_int v # le_bytes n (v div 256)"
proof -
  have "[0..<Suc n] = 0 # map Suc [0..<n]"
    by (simp add: upt_conv_Cons map_Suc_upt del: upt_Suc)
  then have "le_bytes (Suc n) v = word_of_int v # map (\<lambda>k. word_of_int (v div 256 ^ Suc k)) [0..<n]"
    by (simp add: le_bytes_def comp_def del: upt_Suc)
  moreover have "\<And>k. v div 256 ^ Suc k = v div 256 div 256 ^ k"
    by (simp add: zdiv_zmult2_eq)
  ultimately show ?thesis by (simp add: le_bytes_def)
qed

lemma le_bytes_0: "le_bytes 0 v = []"
  by (simp add: le_bytes_def)

lemma le_uint_Cons: "le_uint (b # bs) = uint b + 256 * le_uint bs"
  by (simp add: le_uint_def)

lemma le_uint_le_bytes: "le_uint (le_bytes n v) = v mod 256 ^ n"
proof (induction n arbitrary: v)
  case 0
  then show ?case by (simp add: le_bytes_0 le_uint_def)
next
  case (Suc n)
  have "uint (word_of_int v :: byte) = v mod 256"
    by (simp add: uint_word_of_int)
  then have "le_uint (le_bytes (Suc n) v) = v mod 256 + 256 * (v div 256 mod 256 ^ n)"
    by (simp add: le_bytes_Suc le_uint_Cons Suc.IH)
  also have "\<dots> = v mod 256 ^ Suc n"
    by (simp add: zmod_zmult2_eq)
  finally show ?case .
qed

lemma length_le_bytes: "length (le_bytes n v) = n"
  by (simp add: le_bytes_def)

lemma le_sint_le_bytes_4:
  assumes "- 2147483648 \<le> v" "v \<le> 2147483647"
  shows "le_sint (le_bytes 4 v) = v"
proof (cases "0 \<le> v")
  case True
  with assms have "v mod 4294967296 = v" by simp
  with assms True show ?thesis
    by (simp add: le_sint_def le_uint_le_bytes length_le_bytes)
next
  case False
  with assms have "(v + 4294967296) mod 4294967296 = v + 4294967296"
    by (intro mod_pos_pos_trivial) simp_all
  then have "v mod 4294967296 = v + 4294967296"
    by simp
  with assms False show ?thesis
    by (simp add: le_sint_def le_uint_le_bytes length_le_bytes)
qed

lemma Int32_unpack_le_bytes:
  assumes "- 2147483648 \<le> v" "v \<le> 2147483647"
  shows "Primitive1_unpack env Fmt_i (le_bytes 4 v @ rest) = Inr (PInt v, rest)"
  using le_sint_le_bytes_4 [OF assms]
  by (simp add: Primitive1_unpack_def read_def struct_unpack_def unpack1_def length_le_bytes)

lemma unpack_array_length:
  assumes "- 2147483648 \<le> n" "n \<le> 2147483647"
  shows "unpack_array env self_unpack (le_bytes 4 n @ rest) =
     (if n = - 1 then Inr (PNone, rest)
      else if n = 0 then Inr (PList [], rest)
      else bindE (repeat_unpack (nat n) self_unpack rest) (\<lambda>(xs, data). Inr (PList xs, data)))"
  by (simp add: unpack_array_def Int32_unpack_le_bytes [OF assms])

lemma bindE_Inr_iff: "bindE m f = Inr y \<longleftrightarrow> (\<exists>x. m = Inr x \<and> f x = Inr y)"
  by (cases m) simp_all

lemma pack1_B:
  "pack1 env Fmt_B (PInt v) = Inr x \<Longrightarrow> x = [word_of_int v]"
  by (auto simp add: pack1_def le_bytes_def split: if_splits)

lemma bit_small_byte: "0 \<le> v \<Longrightarrow> v \<le> 5 \<Longrightarrow> \<not> bit (word_of_int v :: byte) 7 \<and> \<not> bit (word_of_int v :: byte) 6"
proof -
  assume "0 \<le> v" "v \<le> 5"
  then have "v = 0 \<or> v = 1 \<or> v = 2 \<or> v = 3 \<or> v = 4 \<or> v = 5" by arith
  then show ?thesis by (auto simp: bit_iff_odd)
qed

lemma nodeid_to_binary_leading:
  assumes "nodeid_to_binary env (PNodeId t ns ident uri si) = Inr bs"
  shows "\<exists>rest. bs = word_of_int (NodeIdType_value t) # rest"
  using assms
  by (cases t) (auto simp add: nodeid_to_binary_def bindE_Inr_iff dest!: pack1_B)

declare reshape_pad.simps [simp del]
declare reshape_dims.simps [simp del]

lemma reshape_pad_replicate:
  "reshape_pad n flat = flat @ replicate (nat (n - int (length flat))) (PList [])"
proof (induction n flat rule: reshape_pad.induct)
  case (1 n flat)
  show ?case
  proof (cases "n > int (length flat)")
    case True
    then have "nat (n - int (length flat)) = Suc (nat (n - int (length (flat @ [PList []]))))"
      by simp
    with True 1 show ?thesis
      by (subst reshape_pad.simps) (simp add: replicate_app_Cons_same)
  next
    case False
    then show ?thesis by (subst reshape_pad.simps) simp
  qed
qed

lemma fold_subsize: "fold (\<lambda>i subsize. subsize * (if i = 0 then 1 else i)) ds a = a * subsize_of ds"
proof (induction ds arbitrary: a)
  case Nil
  then show ?case by (simp add: subsize_of_def)
next
  case (Cons d ds)
  have "subsize_of (d # ds) = (if d = 0 then 1 else d) * subsize_of ds"
    unfolding subsize_of_def by (simp add: Cons.IH [of "if d = 0 then 1 else d"] Cons.IH [of 1])
  then show ?case by (simp add: Cons.IH [of "a * (if d = 0 then 1 else d)"])
qed

lemma subsize_of_Cons: "subsize_of (d # ds) = (if d = 0 then 1 else d) * subsize_of ds"
  using fold_subsize [of "d # ds" 1] fold_subsize [of ds "if d = 0 then 1 else d"] by simp

lemma subsize_of_Nil: "subsize_of [] = 1"
  by (simp add: subsize_of_def)

lemma length_py_range:
  assumes "0 < s" "0 \<le> d0"
  shows "length (py_range (d0 * s) s) = nat d0"
proof -
  have "(d0 * s + s - 1) div s = d0"
  proof -
    have "d0 * s + s - 1 = (s - 1) + d0 * s" by simp
    then have "(d0 * s + s - 1) div s = (s - 1) div s + d0"
      using assms by (simp only: div_mult_self1 [of s "s - 1" d0]) 
    with assms show ?thesis by (simp add: div_pos_pos_trivial)
  qed
  with assms show ?thesis by (simp add: py_range_def)
qed

lemma nth_py_range:
  assumes "0 < s" "0 \<le> d0" "k < nat d0"
  shows "py_range (d0 * s) s ! k = int k * s"
  using assms length_py_range [OF assms(1,2)] by (simp add: py_range_def)

lemma reshape_dims_unfold:
  "reshape_dims flat d0 subdims =
     (let flat' = flat @ replicate (nat (d0 * subsize_of subdims - int (length flat))) (PList [])
      in if subdims = [] \<or> subdims = [0] then (flat', flat')
         else (case subdims of
                 [] \<Rightarrow> (flat', flat')
               | d1 # rest \<Rightarrow>
                   (map (\<lambda>i. PList (fst (reshape_dims (py_slice flat' i (i + subsize_of subdims)) d1 rest)))
                      (py_range (int (length flat')) (subsize_of subdims)),
                    flat')))"
  by (subst reshape_dims.simps) (simp add: reshape_pad_replicate Let_def)

lemma subsize_of_nonzero: "subsize_of ds \<noteq> 0"
  by (induction ds) (simp_all add: subsize_of_Nil subsize_of_Cons)

lemma length_py_range_any:
  assumes "s \<noteq> 0" "0 \<le> d0" "0 \<le> d0 * s"
  shows "length (py_range (d0 * s) s) = nat d0"
proof (cases "0 < s")
  case True
  then show ?thesis using assms(2) by (rule length_py_range)
next
  case False
  with assms(1) have neg: "s < 0" by simp
  have "d0 = 0"
  proof (rule ccontr)
    assume "d0 \<noteq> 0"
    with assms(2) have "0 < d0" by simp
    from mult_pos_neg [OF this neg] assms(3) show False by simp
  qed
  with neg show ?thesis by (simp add: py_range_def)
qed

lemma reshape_fits:
  assumes "0 \<le> d0" and "int (length flat) \<le> d0 * subsize_of subdims"
  shows "\<exists>result padded.
           padded = flat @ replicate (nat (d0 * subsize_of subdims) - length flat) (PList [])
         \<and> reshape flat (d0 # subdims) = Inr (result, padded)
         \<and> length result = nat d0
         \<and> (subdims = [] \<or> subdims = [0] \<longrightarrow> result = padded)
         \<and> (\<forall>d1 rest k. subdims = d1 # rest \<and> subdims \<noteq> [0] \<and> k < nat d0 \<longrightarrow>
               (\<exists>r f. reshape (take (nat (subsize_of subdims)) (drop (k * nat (subsize_of subdims)) padded))
                          (d1 # rest) = Inr (r, f)
                      \<and> result ! k = PList r))"
proof -
  define s where "s = subsize_of subdims"
  define padded where "padded = flat @ replicate (nat (d0 * s) - length flat) (PList [])"
  have s0: "s \<noteq> 0" unfolding s_def by (rule subsize_of_nonzero)
  have fit: "int (length flat) \<le> d0 * s" using assms(2) by (simp add: s_def)
  then have nn: "0 \<le> d0 * s" by linarith
  have pad: "flat @ replicate (nat (d0 * s - int (length flat))) (PList []) = padded"
    unfolding padded_def by (simp add: nat_diff_distrib')
  have lenp: "int (length padded) = d0 * s"
    using fit unfolding padded_def by simp
  have unf: "reshape_dims flat d0 subdims =
     (if subdims = [] \<or> subdims = [0] then (padded, padded)
      else (case subdims of
              [] \<Rightarrow> (padded, padded)
            | d1 # rest \<Rightarrow>
                (map (\<lambda>i. PList (fst (reshape_dims (py_slice padded i (i + s)) d1 rest)))
                   (py_range (d0 * s) s),
                 padded)))"
    using reshape_dims_unfold [of flat d0 subdims]
    unfolding Let_def s_def [symmetric] pad lenp .
  define result where "result = fst (reshape_dims flat d0 subdims)"
  have snd_eq: "snd (reshape_dims flat d0 subdims) = padded"
    unfolding unf by (simp split: list.splits)
  have r: "reshape flat (d0 # subdims) = Inr (result, padded)"
    by (simp add: reshape_def result_def snd_eq [symmetric])
  have base: "result = padded" if "subdims = [] \<or> subdims = [0]"
    unfolding result_def unf using that by auto
  have rec: "result = map (\<lambda>i. PList (fst (reshape_dims (py_slice padded i (i + s)) d1 rest)))
                      (py_range (d0 * s) s)"
    if "subdims = d1 # rest" "subdims \<noteq> [0]" for d1 rest
    unfolding result_def unf using that by auto
  have len: "length result = nat d0"
  proof (cases "subdims = [] \<or> subdims = [0]")
    case True
    then have "s = 1" by (auto simp add: s_def subsize_of_Nil subsize_of_Cons)
    with base [OF True] lenp show ?thesis by simp
  next
    case False
    then obtain d1 rest where c: "subdims = d1 # rest" by (cases subdims) auto
    from False c have "subdims \<noteq> [0]" by simp
    from rec [OF c this] show ?thesis
      by (simp add: length_py_range_any [OF s0 assms(1) nn])
  qed
  have nth: "\<exists>r f. reshape (take (nat s) (drop (k * nat s) padded)) (d1 # rest) = Inr (r, f)
                      \<and> result ! k = PList r"
    if "subdims = d1 # rest" "subdims \<noteq> [0]" "k < nat d0" for d1 rest k
  proof -
    from that(3) have dpos: "0 < d0" by simp
    have s1: "0 < s"
    proof (rule ccontr)
      assume "\<not> 0 < s"
      with s0 have "s < 0" by simp
      from mult_pos_neg [OF dpos this] nn show False by simp
    qed
    have lr: "k < length (py_range (d0 * s) s)"
      using that(3) s1 assms(1) by (simp add: length_py_range)
    have "nat (int k * s) = k * nat s" using s1 by (simp add: nat_mult_distrib)
    then have sl: "py_slice padded (int k * s) (int k * s + s) = take (nat s) (drop (k * nat s) padded)"
      by (simp add: py_slice_def)
    have "result ! k = PList (fst (reshape_dims (take (nat s) (drop (k * nat s) padded)) d1 rest))"
      using lr s1 assms(1) that(3)
      by (simp add: rec [OF that(1,2)] nth_py_range sl)
    then show ?thesis
      by (cases "reshape_dims (take (nat s) (drop (k * nat s) padded)) d1 rest")
        (simp add: reshape_def)
  qed
  show ?thesis
    apply (rule exI [of _ result], rule exI [of _ padded])
    using r len base nth unfolding padded_def s_def by blast
qed

lemma reshape_longer:
  assumes "0 < subsize_of subdims" and "d0 * subsize_of subdims < int (length flat)"
  shows "\<exists>result. reshape flat (d0 # subdims) = Inr (result, flat)
           \<and> d0 < int (length result)
           \<and> (subdims = [] \<or> subdims = [0] \<longrightarrow> result = flat)"
proof -
  define s where "s = subsize_of subdims"
  have s1: "0 < s" and long: "d0 * s < int (length flat)"
    using assms by (simp_all add: s_def)
  have pad: "flat @ replicate (nat (d0 * s - int (length flat))) (PList []) = flat"
    using long by simp
  have unf: "reshape_dims flat d0 subdims =
     (if subdims = [] \<or> subdims = [0] then (flat, flat)
      else (case subdims of
              [] \<Rightarrow> (flat, flat)
            | d1 # rest \<Rightarrow>
                (map (\<lambda>i. PList (fst (reshape_dims (py_slice flat i (i + s)) d1 rest)))
                   (py_range (int (length flat)) s),
                 flat)))"
    using reshape_dims_unfold [of flat d0 subdims]
    unfolding Let_def s_def [symmetric] pad .
  define result where "result = fst (reshape_dims flat d0 subdims)"
  have snd_eq: "snd (reshape_dims flat d0 subdims) = flat"
    unfolding unf by (simp split: list.splits)
  have "reshape_dims flat d0 subdims = (result, flat)"
    using snd_eq by (simp add: result_def prod_eq_iff)
  then have r: "reshape flat (d0 # subdims) = Inr (result, flat)"
    by (simp add: reshape_def)
  have base: "result = flat" if "subdims = [] \<or> subdims = [0]"
    unfolding result_def unf using that by auto
  have len: "d0 < int (length result)"
  proof (cases "subdims = [] \<or> subdims = [0]")
    case True
    then have "s = 1" by (auto simp add: s_def subsize_of_Nil subsize_of_Cons)
    with base [OF True] long show ?thesis by simp
  next
    case False
    then obtain d1 rest where c: "subdims = d1 # rest" by (cases subdims) auto
    from False c have "result = map (\<lambda>i. PList (fst (reshape_dims (py_slice flat i (i + s)) d1 rest)))
                   (py_range (int (length flat)) s)"
      unfolding result_def unf by auto
    then have "length result = length (py_range (int (length flat)) s)"
      by simp
    with s1 have lr: "length result = nat ((int (length flat) + s - 1) div s)"
      by (simp add: py_range_def)
    have "(d0 + 1) * s \<le> int (length flat) + s - 1"
      using long by (simp add: algebra_simps)
    then have "(d0 + 1) * s div s \<le> (int (length flat) + s - 1) div s"
      using s1 by (rule zdiv_mono1)
    with s1 have "d0 + 1 \<le> (int (length flat) + s - 1) div s" by simp
    with lr show ?thesis by simp
  qed
  show ?thesis
    apply (rule exI [of _ result])
    using r len base by blast
qed

lemma to_binary_NodeId_new:
  "to_binary (Suc n) env NodeId_new PNone = (NodeId_new, Inr [0, 0])"
  by (simp add: to_binary_body_def NodeId_new_def nodeid_to_binary_def pack1_def le_bytes_def upt_rec)

lemma extensionobject_to_binary_None:
  "extensionobject_to_binary (Suc (Suc n)) env PNone = (PNone, Inr [0, 0, 0])"
  by (simp add: extensionobject_to_binary_body_def to_binary_NodeId_new Primitive1_pack_def
      pack1_def le_bytes_def upt_rec del: to_binary.simps)

lemma extensionobject_from_binary_zero:
  "extensionobject_from_binary env (0 # 0 # 0 # rest) = Inr (PNone, rest)"
  by (simp add: extensionobject_from_binary_def nodeid_from_binary_def NodeId_new_def read_def
      py_ord_def NodeIdType_of_def test_bit_def)

lemma and_one_bit0: "(uint (enc :: byte) AND 1 \<noteq> 0) = bit enc 0"
proof -
  have "bit enc 0 = bit (uint enc) 0" by (simp add: bit_uint_iff)
  also have "\<dots> = odd (uint enc)" by (simp only: bit_0)
  finally show ?thesis by (simp add: and_one_eq mod_2_eq_odd)
qed

lemma extensionobject_from_binary_after_typeid:
  assumes "nodeid_from_binary env data = Inr (PNodeId t ns (PInt 0) uri si, enc # rest)"
  shows "extensionobject_from_binary env data =
     bindE (if bit enc 0 then
          bindE (unpack env (Primitive1 Fmt_i) rest) (\<lambda>(length, data).
            case as_int length of
              None \<Rightarrow> Inl TypeError
            | Some n \<Rightarrow>
                if n < 1 then Inr (Some [], data)
                else bindE (skip data n) (\<lambda>data'. Inr (Some (copy data n), data')))
        else Inr (None, rest)) (\<lambda>(body, data). Inr (PNone, data))"
  using assms
  by (simp add: extensionobject_from_binary_def read_def py_ord_def and_one_bit0
      del: push_bit_of_1 cong: if_cong)





lemma map_of_assign: "map_of (assign k v xs) x = (if x = k then Some v else map_of xs x)"
  by (induction xs) auto

lemma getattr_setattr:
  "getattr (setattr (PObject cls tys sw attrs) c v) x
     = (if x = c then Inr v else getattr (PObject cls tys sw attrs) x)"
  by (simp add: getattr_def setattr_def map_of_assign)

lemma setattr_PObject:
  "setattr (PObject cls tys sw attrs) c v = PObject cls tys sw (assign c v attrs)"
  by (simp add: setattr_def)

lemma test_bit_iff: "(test_bit v n \<noteq> 0) = bit v n"
  by (simp add: test_bit_def and_exp_eq_0_iff_not_bit)

lemma switch_is_set_iff:
  "switch_is_set obj c i =
     (\<exists>val k. getattr obj c = Inr val \<and> as_int val = Some k \<and> 0 \<le> i \<and> bit k (nat i))"
  by (cases "getattr obj c")
    (auto simp add: switch_is_set_def py_test_bit_def test_bit_iff split: option.splits)

lemma py_or_shift_Inr:
  "py_or_shift cv i = Inr w \<longleftrightarrow>
     (\<exists>k. as_int cv = Some k \<and> 0 \<le> i \<and> w = PInt (k OR push_bit (nat i) 1))"
  by (auto simp add: py_or_shift_def split: option.splits)

lemma set_switches_bits:
  assumes "set_switches (PObject cls tys sw attrs) items = (obj', None)" and "0 \<le> i"
  shows "switch_is_set obj' c i \<longleftrightarrow>
           switch_is_set (PObject cls tys sw attrs) c i
           \<or> (\<exists>name. (name, c, i) \<in> set items \<and> getattr (PObject cls tys sw attrs) name \<noteq> Inr PNone)"
  using assms
proof (induction items arbitrary: attrs)
  case Nil
  then show ?case by simp
next
  case (Cons item items)
  obtain n1 c1 i1 where item: "item = (n1, c1, i1)" by (cases item)
  let ?obj = "PObject cls tys sw attrs"
  from Cons.prems(1) item obtain m where m: "getattr ?obj n1 = Inr m"
    by (cases "getattr ?obj n1") auto
  show ?case
  proof (cases "m = PNone")
    case True
    with Cons.prems m item have "set_switches ?obj items = (obj', None)" by simp
    from Cons.IH [OF this Cons.prems(2)] True m item show ?thesis by auto
  next
    case False
    with Cons.prems(1) m item obtain cv where cv: "getattr ?obj c1 = Inr cv"
      by (cases "getattr ?obj c1") auto
    with Cons.prems(1) m item False obtain w where w: "py_or_shift cv i1 = Inr w"
      by (cases "py_or_shift cv i1") auto
    then obtain k where k: "as_int cv = Some k" "0 \<le> i1" "w = PInt (k OR push_bit (nat i1) 1)"
      by (auto simp add: py_or_shift_Inr)
    from Cons.prems(1) m item False cv w
    have rest: "set_switches (PObject cls tys sw (assign c1 w attrs)) items = (obj', None)"
      by (simp add: setattr_PObject)
    have g: "getattr (PObject cls tys sw (assign c1 w attrs)) x
               = (if x = c1 then Inr w else getattr ?obj x)" for x
      using getattr_setattr [of cls tys sw attrs c1 w x] by (simp add: setattr_PObject)
    have cvn: "cv \<noteq> PNone" using k(1) by auto
    have pres: "getattr (PObject cls tys sw (assign c1 w attrs)) x \<noteq> Inr PNone
                 \<longleftrightarrow> getattr ?obj x \<noteq> Inr PNone" for x
      using g [of x] cv cvn k(3) by auto
    have bits: "switch_is_set (PObject cls tys sw (assign c1 w attrs)) c i
                 \<longleftrightarrow> switch_is_set ?obj c i \<or> (c = c1 \<and> i = i1)"
    proof (cases "c = c1")
      case True
      have ii: "nat i = nat i1 \<longleftrightarrow> i = i1" using Cons.prems(2) k(2) by auto
      have "switch_is_set (PObject cls tys sw (assign c1 w attrs)) c1 i
              \<longleftrightarrow> (\<exists>k'. as_int w = Some k' \<and> bit k' (nat i))"
        using Cons.prems(2) by (simp add: switch_is_set_iff g)
      also have "\<dots> \<longleftrightarrow> bit (k OR push_bit (nat i1) 1) (nat i)"
        by (simp add: k(3))
      also have "\<dots> \<longleftrightarrow> bit k (nat i) \<or> i = i1"
        using ii by (auto simp add: bit_or_iff bit_exp_iff)
      also have "bit k (nat i) \<longleftrightarrow> switch_is_set ?obj c1 i"
        using cv k(1) Cons.prems(2) by (simp add: switch_is_set_iff)
      finally show ?thesis using True by simp
    next
      case False
      then show ?thesis by (simp add: switch_is_set_iff g)
    qed
    from Cons.IH [OF rest Cons.prems(2)] bits pres m False item
    show ?thesis by auto
  qed
qed

lemma skip_unset_switch:
  assumes "map_of items name = Some (c, i)"
    and "bindE (getattr (PObject cls tys (Some items) attrs) c) (\<lambda>val. py_test_bit val i) = Inr 0"
  shows "struct_from_binary_fields fb data (PObject cls tys (Some items) attrs) ((name, uatype) # flds) buf
           = struct_from_binary_fields fb data (PObject cls tys (Some items) attrs) flds buf"
  using assms by (simp add: bindE_Inr_iff) (auto simp add: bindE_def split: sum.splits)

lemma fst_struct_to_binary_switches:
  "fst (struct_to_binary (Suc n) env (PObject cls tys (Some items) attrs))
     = fst (set_switches (PObject cls tys (Some items) attrs) items)"
  by (simp add: struct_to_binary_body_def split: option.splits prod.splits)

subsection \<open>Absent and empty strings, byte strings and arrays\<close>

text \<open>
  Claim C8. The string, byte-string and generic array codecs keep absent and empty
  apart. Packing the absent value gives exactly the four bytes ff ff ff ff (the signed
  length -1); packing the empty string, the empty byte string or the empty sequence
  gives exactly four zero bytes and nothing after them. Unpacking a length prefix of
  -1 gives the absent value and a length prefix of 0 gives the empty value, each
  consuming the four length bytes only. So absent and empty each come back as
  themselves and never as the other.
\<close>

theorem absent_and_empty:
  "String_pack env PNone = Inr [0xff, 0xff, 0xff, 0xff]
   \<and> Bytes_pack env PNone = Inr [0xff, 0xff, 0xff, 0xff]
   \<and> pack_array env self_pack PNone = Inr [0xff, 0xff, 0xff, 0xff]
   \<and> String_pack env (PStr '''') = Inr [0, 0, 0, 0]
   \<and> Bytes_pack env (PBytes []) = Inr [0, 0, 0, 0]
   \<and> pack_array env self_pack (PList []) = Inr [0, 0, 0, 0]
   \<and> String_unpack env ([0xff, 0xff, 0xff, 0xff] @ rest) = Inr (PNone, rest)
   \<and> Bytes_unpack env ([0xff, 0xff, 0xff, 0xff] @ rest) = Inr (PNone, rest)
   \<and> unpack_array env self_unpack ([0xff, 0xff, 0xff, 0xff] @ rest) = Inr (PNone, rest)
   \<and> String_unpack env ([0, 0, 0, 0] @ rest) = Inr (PStr '''', rest)
   \<and> Bytes_unpack env ([0, 0, 0, 0] @ rest) = Inr (PBytes [], rest)
   \<and> unpack_array env self_unpack ([0, 0, 0, 0] @ rest) = Inr (PList [], rest)"
  by (simp add: String_pack_def Bytes_pack_def pack_array_def Primitive1_pack_def pack1_def
      le_bytes_def String_unpack_def Bytes_unpack_def unpack_array_def Primitive1_unpack_def
      read_def struct_unpack_def unpack1_def le_sint_def le_uint_def encode_utf8_def
      decode_utf8_def upt_rec)

theorem absent_and_empty_witness:
  "String_unpack env0 [0xff, 0xff, 0xff, 0xff] = Inr (PNone, [])
   \<and> String_unpack env0 [0, 0, 0, 0] = Inr (PStr '''', [])
   \<and> String_pack env0 PNone \<noteq> String_pack env0 (PStr '''')"
  using absent_and_empty [of env0 "pack env0 Prim_String" "[]" "unpack env0 Prim_String"]
  by simp

subsection \<open>Negative array lengths\<close>

text \<open>
  Claim C10. For every primitive kind \<open>p\<close>, \<open>unpack_array\<close> on a cursor whose signed
  4-byte length prefix \<open>n\<close> is negative and not -1 (for example -2) returns the present
  but empty sequence and has consumed the four length bytes only; for \<open>n = -1\<close> it
  returns the absent value; an absent result is returned for no other length; and no
  negative length makes it fail.
\<close>

theorem unpack_array_negative_length:
  assumes "- 2147483648 \<le> n" "n \<le> 2147483647"
  shows "(n < 0 \<and> n \<noteq> - 1 \<longrightarrow>
            unpack_array env (unpack env p) (le_bytes 4 n @ rest) = Inr (PList [], rest))
       \<and> (n = - 1 \<longrightarrow>
            unpack_array env (unpack env p) (le_bytes 4 n @ rest) = Inr (PNone, rest))
       \<and> (\<forall>rest'. unpack_array env (unpack env p) (le_bytes 4 n @ rest) = Inr (PNone, rest')
            \<longrightarrow> n = - 1)
       \<and> (n < 0 \<longrightarrow> (\<exists>v. unpack_array env (unpack env p) (le_bytes 4 n @ rest) = Inr (v, rest)))"
  unfolding unpack_array_length [OF assms]
  by (auto simp add: bindE_Inr_iff split: prod.splits)

theorem unpack_array_negative_length_witness:
  "unpack_array env0 (unpack env0 (Primitive1 Fmt_H)) [0xfe, 0xff, 0xff, 0xff, 7, 0]
     = Inr (PList [], [7, 0])"
proof -
  have b: "le_bytes 4 (- 2) @ [7, 0] = [0xfe, 0xff, 0xff, 0xff, 7, 0]"
    by (simp add: le_bytes_def upt_rec)
  show ?thesis
    using unpack_array_negative_length [of "- 2" env0 "Primitive1 Fmt_H" "[7, 0]"]
    unfolding b by simp
qed

subsection \<open>Timestamps beyond the last representable date\<close>

text \<open>
  Claim C9. \<open>win_epoch_to_datetime\<close> does not fail on a tick count whose date lies
  beyond the last representable one: it returns exactly 9999-12-31T23:59:59.999999
  and logs one record of severity warning. On a tick count whose date is
  representable it returns 1601-01-01T00:00:00 plus \<open>ticks div 10\<close> microseconds and
  logs nothing.
\<close>

theorem win_epoch_to_datetime_clamps:
  "(datetime_max < FILETIME_EPOCH_AS_DATETIME + ticks div 10 \<longrightarrow>
      win_epoch_to_datetime ticks =
        (Inr (datetime 9999 12 31 23 59 59 999999), [(WARNING, ''datetime overflow: %s'', ticks)]))
   \<and> (0 \<le> FILETIME_EPOCH_AS_DATETIME + ticks div 10
        \<and> FILETIME_EPOCH_AS_DATETIME + ticks div 10 \<le> datetime_max \<longrightarrow>
      win_epoch_to_datetime ticks = (Inr (datetime 1601 1 1 0 0 0 0 + ticks div 10), []))"
proof (intro conjI impI)
  assume over: "datetime_max < FILETIME_EPOCH_AS_DATETIME + ticks div 10"
  have "bindE (timedelta_microseconds (ticks div 10)) (datetime_add FILETIME_EPOCH_AS_DATETIME)
          = Inl OverflowError"
    using over by (simp add: timedelta_microseconds_def datetime_add_def)
  then show "win_epoch_to_datetime ticks =
        (Inr (datetime 9999 12 31 23 59 59 999999), [(WARNING, ''datetime overflow: %s'', ticks)])"
    by (simp add: win_epoch_to_datetime_def MAXYEAR_def)
next
  assume inr: "0 \<le> FILETIME_EPOCH_AS_DATETIME + ticks div 10
        \<and> FILETIME_EPOCH_AS_DATETIME + ticks div 10 \<le> datetime_max"
  then have "- 50491123200000000 \<le> ticks div 10" "ticks div 10 \<le> 265046774399999999"
    by (simp_all add: FILETIME_EPOCH_AS_DATETIME_eq datetime_max_eq)
  then have "- 584388 \<le> ticks div 10 div 86400000000" "ticks div 10 div 86400000000 \<le> 3067671"
    by linarith+
  then have "timedelta_microseconds (ticks div 10) = Inr (ticks div 10)"
    by (simp add: timedelta_microseconds_def)
  with inr show "win_epoch_to_datetime ticks = (Inr (datetime 1601 1 1 0 0 0 0 + ticks div 10), [])"
    by (simp add: win_epoch_to_datetime_def datetime_add_def FILETIME_EPOCH_AS_DATETIME_def)
qed

theorem win_epoch_to_datetime_clamps_witness:
  "win_epoch_to_datetime 9223372036854775807 =
        (Inr (datetime 9999 12 31 23 59 59 999999), [(WARNING, ''datetime overflow: %s'', 9223372036854775807)])
   \<and> win_epoch_to_datetime 116444736000000000 = (Inr (datetime 1970 1 1 0 0 0 0), [])"
  using win_epoch_to_datetime_clamps [of 9223372036854775807]
    win_epoch_to_datetime_clamps [of 116444736000000000]
  by (simp add: FILETIME_EPOCH_AS_DATETIME_eq datetime_max_eq)
    (simp add: datetime_def ymd2ord_def days_before_year_def days_before_month_def)

subsection \<open>NodeId: an unknown discriminant\<close>

text \<open>
  Claim C4 says that a leading byte whose low six bits are no NodeId discriminant makes
  \<open>nodeid_from_binary\<close> fail with the protocol error "Unknown NodeId encoding". The
  code converts the six bits with \<^verbatim>\<open>ua.NodeIdType(...)\<close> first, and that lookup raises
  ValueError for a value without a member; the branch that raises the protocol error
  is never reached. On the byte 0x3f, followed by anything:
\<close>

theorem nodeid_from_binary_unknown_discriminant:
  "nodeid_from_binary env (0x3f # rest) = Inl ValueError"
  by (simp add: nodeid_from_binary_def NodeId_new_def read_def py_ord_def NodeIdType_of_def)

subsection \<open>NodeId: what the encoder emits\<close>

text \<open>
  Claim C6. For every NodeId, the bytes \<open>nodeid_to_binary\<close> produces depend on its
  NodeIdType, NamespaceIndex and Identifier only: replacing NamespaceUri and
  ServerIndex by any other values gives the same result, so neither is ever emitted.
  The leading byte is the ordinal of the NodeIdType, and its bits 7 and 6 are never
  set.
\<close>

theorem nodeid_to_binary_core_fields_only:
  "nodeid_to_binary env (PNodeId t ns ident uri si) = nodeid_to_binary env (PNodeId t ns ident uri' si')
   \<and> (\<forall>bs. nodeid_to_binary env (PNodeId t ns ident uri si) = Inr bs \<longrightarrow>
         (\<exists>rest. bs = word_of_int (NodeIdType_value t) # rest)
          \<and> \<not> bit (hd bs) 7 \<and> \<not> bit (hd bs) 6)"
proof (intro conjI allI impI)
  show "nodeid_to_binary env (PNodeId t ns ident uri si) = nodeid_to_binary env (PNodeId t ns ident uri' si')"
    by (simp add: nodeid_to_binary_def)
next
  fix bs assume a: "nodeid_to_binary env (PNodeId t ns ident uri si) = Inr bs"
  from nodeid_to_binary_leading [OF a]
  obtain rest where r: "bs = word_of_int (NodeIdType_value t) # rest" by blast
  then show "\<exists>rest. bs = word_of_int (NodeIdType_value t) # rest" by blast
  have "0 \<le> NodeIdType_value t" "NodeIdType_value t \<le> 5" by (cases t; simp)+
  from bit_small_byte [OF this] r
  show "\<not> bit (hd bs) 7" "\<not> bit (hd bs) 6" by simp_all
qed

theorem nodeid_to_binary_core_fields_only_witness:
  "nodeid_to_binary env0 (PNodeId FourByte (PInt 1) (PInt 300) (PStr ''urn:x'') (PInt 7))
     = Inr [1, 1, 0x2c, 1]
   \<and> nodeid_to_binary env0 (PNodeId FourByte (PInt 1) (PInt 300) PNone PNone) = Inr [1, 1, 0x2c, 1]"
  using nodeid_to_binary_core_fields_only [of env0 FourByte "PInt 1" "PInt 300" "PStr ''urn:x''" "PInt 7" PNone PNone]
  by (simp add: nodeid_to_binary_def pack1_def le_bytes_def upt_rec)

subsection \<open>Reshaping\<close>

text \<open>
  Claim C5, as amended. Let \<open>dims = d0 # subdims\<close> with \<open>d0\<close> not negative, and let
  \<open>flat\<close> be no longer than \<open>d0\<close> times the slice size (the product of \<open>subdims\<close>, a
  zero counted as 1). Then \<open>reshape\<close> pads \<open>flat\<close> on the right with empty lists up to
  that length, and returns a sequence of length \<open>d0\<close>: the padded \<open>flat\<close> itself when
  \<open>subdims\<close> is empty or \<open>[0]\<close>, and otherwise the sequence whose \<open>k\<close>-th element is the
  reshape by \<open>subdims\<close> of the \<open>k\<close>-th contiguous slice of the padded \<open>flat\<close>. If
  instead \<open>flat\<close> is longer than \<open>d0\<close> times a positive slice size, nothing is padded
  and nothing is cut: the result has more than \<open>d0\<close> elements (and is \<open>flat\<close> itself
  when \<open>subdims\<close> is empty or \<open>[0]\<close>). In particular
  \<^verbatim>\<open>reshape([1,2,3,4,5,6], [2,3]) = [[1,2,3],[4,5,6]]\<close>.
\<close>

theorem reshape_well_formed:
  "(0 \<le> d0 \<and> int (length flat) \<le> d0 * subsize_of subdims \<longrightarrow>
      (\<exists>result padded.
           padded = flat @ replicate (nat (d0 * subsize_of subdims) - length flat) (PList [])
         \<and> reshape flat (d0 # subdims) = Inr (result, padded)
         \<and> length result = nat d0
         \<and> (subdims = [] \<or> subdims = [0] \<longrightarrow> result = padded)
         \<and> (\<forall>d1 rest k. subdims = d1 # rest \<and> subdims \<noteq> [0] \<and> k < nat d0 \<longrightarrow>
               (\<exists>r f. reshape (take (nat (subsize_of subdims)) (drop (k * nat (subsize_of subdims)) padded))
                          (d1 # rest) = Inr (r, f)
                      \<and> result ! k = PList r))))
   \<and> (0 < subsize_of subdims \<and> d0 * subsize_of subdims < int (length flat) \<longrightarrow>
      (\<exists>result. reshape flat (d0 # subdims) = Inr (result, flat)
           \<and> d0 < int (length result)
           \<and> (subdims = [] \<or> subdims = [0] \<longrightarrow> result = flat)))
   \<and> reshape [PInt 1, PInt 2, PInt 3, PInt 4, PInt 5, PInt 6] [2, 3]
        = Inr ([PList [PInt 1, PInt 2, PInt 3], PList [PInt 4, PInt 5, PInt 6]],
               [PInt 1, PInt 2, PInt 3, PInt 4, PInt 5, PInt 6])"
proof (intro conjI impI)
  assume "0 \<le> d0 \<and> int (length flat) \<le> d0 * subsize_of subdims"
  then show "\<exists>result padded.
           padded = flat @ replicate (nat (d0 * subsize_of subdims) - length flat) (PList [])
         \<and> reshape flat (d0 # subdims) = Inr (result, padded)
         \<and> length result = nat d0
         \<and> (subdims = [] \<or> subdims = [0] \<longrightarrow> result = padded)
         \<and> (\<forall>d1 rest k. subdims = d1 # rest \<and> subdims \<noteq> [0] \<and> k < nat d0 \<longrightarrow>
               (\<exists>r f. reshape (take (nat (subsize_of subdims)) (drop (k * nat (subsize_of subdims)) padded))
                          (d1 # rest) = Inr (r, f)
                      \<and> result ! k = PList r))"
    using reshape_fits [of d0 flat subdims] by blast
next
  assume "0 < subsize_of subdims \<and> d0 * subsize_of subdims < int (length flat)"
  then show "\<exists>result. reshape flat (d0 # subdims) = Inr (result, flat)
           \<and> d0 < int (length result)
           \<and> (subdims = [] \<or> subdims = [0] \<longrightarrow> result = flat)"
    using reshape_longer [of subdims d0 flat] by blast
next
  show "reshape [PInt 1, PInt 2, PInt 3, PInt 4, PInt 5, PInt 6] [2, 3]
        = Inr ([PList [PInt 1, PInt 2, PInt 3], PList [PInt 4, PInt 5, PInt 6]],
               [PInt 1, PInt 2, PInt 3, PInt 4, PInt 5, PInt 6])"
    by code_simp
qed

theorem reshape_well_formed_witness:
  "reshape [PInt 1, PInt 2, PInt 3, PInt 4, PInt 5, PInt 6] [2, 3]
     = Inr ([PList [PInt 1, PInt 2, PInt 3], PList [PInt 4, PInt 5, PInt 6]],
            [PInt 1, PInt 2, PInt 3, PInt 4, PInt 5, PInt 6])
   \<and> reshape [PInt 1, PInt 2, PInt 3] [2, 2]
     = Inr ([PList [PInt 1, PInt 2], PList [PInt 3, PList []]],
            [PInt 1, PInt 2, PInt 3, PList []])
   \<and> length [PList [PInt 1, PInt 2], PList [PInt 3, PList []]] = nat 2
   \<and> reshape [PInt 1, PInt 2, PInt 3, PInt 4, PInt 5] [1, - 1, - 2]
     = Inr ([PList [], PList [], PList []],
            [PInt 1, PInt 2, PInt 3, PInt 4, PInt 5])
   \<and> (1 :: int) < int (length [PList [], PList [], PList [] :: pyval])"
proof -
  note T = reshape_well_formed [of 2 "[PInt 1, PInt 2, PInt 3]" "[2]"]
  note U = reshape_well_formed [of 1 "[PInt 1, PInt 2, PInt 3, PInt 4, PInt 5]" "[- 1, - 2]"]
  have e1: "reshape [PInt 1, PInt 2, PInt 3, PInt 4, PInt 5, PInt 6] [2, 3]
     = Inr ([PList [PInt 1, PInt 2, PInt 3], PList [PInt 4, PInt 5, PInt 6]],
            [PInt 1, PInt 2, PInt 3, PInt 4, PInt 5, PInt 6])"
    using T by blast
  have e2: "reshape [PInt 1, PInt 2, PInt 3] [2, 2]
     = Inr ([PList [PInt 1, PInt 2], PList [PInt 3, PList []]],
            [PInt 1, PInt 2, PInt 3, PList []])"
    by code_simp
  have e3: "reshape [PInt 1, PInt 2, PInt 3, PInt 4, PInt 5] [1, - 1, - 2]
     = Inr ([PList [], PList [], PList []],
            [PInt 1, PInt 2, PInt 3, PInt 4, PInt 5])"
    by code_simp
  have s2: "subsize_of [2] = 2" and s3: "subsize_of [- 1, - 2] = 2"
    by (simp_all add: subsize_of_def)
  from T s2 obtain result padded where
    "reshape [PInt 1, PInt 2, PInt 3] [2, 2] = Inr (result, padded)" "length result = nat 2"
    by auto
  with e2 have l2: "length [PList [PInt 1, PInt 2], PList [PInt 3, PList []]] = nat 2"
    by simp
  from U s3 obtain result' where
    "reshape [PInt 1, PInt 2, PInt 3, PInt 4, PInt 5] [1, - 1, - 2] = Inr (result', [PInt 1, PInt 2, PInt 3, PInt 4, PInt 5])"
    "1 < int (length result')"
    by auto
  with e3 have l3: "(1 :: int) < int (length [PList [], PList [], PList [] :: pyval])"
    by simp
  from e1 e2 e3 l2 l3 show ?thesis by blast
qed

text \<open>
  The claim as first stated promises a result of length \<open>d0\<close> for every \<open>flat\<close>; with
  six elements and \<open>dims = [1, 2]\<close> the result has three.
\<close>

theorem reshape_length_counterexample:
  "reshape [PInt 1, PInt 2, PInt 3, PInt 4, PInt 5, PInt 6] [1, 2]
     = Inr ([PList [PInt 1, PInt 2], PList [PInt 3, PInt 4], PList [PInt 5, PInt 6]],
            [PInt 1, PInt 2, PInt 3, PInt 4, PInt 5, PInt 6])
   \<and> int (length [PList [PInt 1, PInt 2], PList [PInt 3, PInt 4], PList [PInt 5, PInt 6]]) \<noteq> 1"
proof -
  have "reshape [PInt 1, PInt 2, PInt 3, PInt 4, PInt 5, PInt 6] [1, 2]
     = Inr ([PList [PInt 1, PInt 2], PList [PInt 3, PInt 4], PList [PInt 5, PInt 6]],
            [PInt 1, PInt 2, PInt 3, PInt 4, PInt 5, PInt 6])"
    by code_simp
  then show ?thesis by simp
qed

subsection \<open>Decoding a list by its type tag\<close>

text \<open>
  Claim C1 says that \<open>from_binary\<close> on a tag \<^verbatim>\<open>ListOf<T>\<close> reads a count \<open>n\<close> and then
  decodes \<open>n\<close> elements of type \<open>T\<close>. The loop calls \<^verbatim>\<open>from_binary(data, uatype[6:])\<close>,
  with the two arguments in the wrong order: the cursor arrives as the type and the
  element tag as the cursor, the call falls through to \<open>struct_from_binary\<close>, and
  that calls the cursor as if it were a class. So every count above zero ends in a
  TypeError. On the count 1 followed by the Int32 7, which the element tag alone
  decodes:
\<close>

theorem from_binary_list_swapped_arguments:
  "from_binary (Suc (Suc (Suc n))) env (PStr ''ListOfInt32'') PBuffer [1, 0, 0, 0, 7, 0, 0, 0]
     = Inl TypeError
   \<and> from_binary (Suc n) env (PStr ''Int32'') PBuffer [7, 0, 0, 0] = Inr (PInt 7, [])"
  by (simp add: startswith_def Primitives_def with_buffer_def Primitive1_unpack_def read_def
      struct_unpack_def unpack1_def le_sint_def le_uint_def)

subsection \<open>The absent ExtensionObject\<close>

text \<open>
  Claim C7. \<open>extensionobject_to_binary\<close> of the absent value emits the zero NodeId
  (00 00), the Encoding byte 00 and no body. \<open>extensionobject_from_binary\<close> of a
  stream whose TypeId decodes with Identifier 0 yields the absent value whether or not
  a body follows: when bit 0 of the Encoding byte is clear nothing more is consumed,
  and when it is set the length and the body (none for a length below 1) are consumed
  and dropped. Hence the three bytes of the absent value decode to the absent value.
\<close>

theorem extensionobject_absent:
  "extensionobject_to_binary (Suc (Suc n)) env PNone = (PNone, Inr [0, 0, 0])
   \<and> (\<forall>t ns uri si enc rest.
         nodeid_from_binary env data = Inr (PNodeId t ns (PInt 0) uri si, enc # rest) \<longrightarrow>
           (\<not> bit enc 0 \<longrightarrow> extensionobject_from_binary env data = Inr (PNone, rest))
         \<and> (\<forall>len body rest'.
               bit enc 0 \<and> rest = le_bytes 4 len @ body @ rest'
               \<and> - 2147483648 \<le> len \<and> len \<le> 2147483647
               \<and> (if len < 1 then body = [] else int (length body) = len) \<longrightarrow>
               extensionobject_from_binary env data = Inr (PNone, rest')))
   \<and> extensionobject_from_binary env ([0, 0, 0] @ rest0) = Inr (PNone, rest0)"
proof (intro conjI allI impI)
  show "extensionobject_to_binary (Suc (Suc n)) env PNone = (PNone, Inr [0, 0, 0])"
    by (rule extensionobject_to_binary_None)
next
  show "extensionobject_from_binary env ([0, 0, 0] @ rest0) = Inr (PNone, rest0)"
    using extensionobject_from_binary_zero [of env rest0] by simp
next
  fix t ns uri si enc rest
  assume a: "nodeid_from_binary env data = Inr (PNodeId t ns (PInt 0) uri si, enc # rest)"
    and "\<not> bit enc 0"
  then show "extensionobject_from_binary env data = Inr (PNone, rest)"
    by (simp add: extensionobject_from_binary_after_typeid [OF a])
next
  fix t ns uri si enc rest len body rest'
  assume a: "nodeid_from_binary env data = Inr (PNodeId t ns (PInt 0) uri si, enc # rest)"
    and b: "bit enc 0 \<and> rest = le_bytes 4 len @ body @ rest'
               \<and> - 2147483648 \<le> len \<and> len \<le> 2147483647
               \<and> (if len < 1 then body = [] else int (length body) = len)"
  from b have u: "unpack env (Primitive1 Fmt_i) rest = Inr (PInt len, body @ rest')"
    by (simp add: Int32_unpack_le_bytes)
  show "extensionobject_from_binary env data = Inr (PNone, rest')"
  proof (cases "len < 1")
    case True
    with b u show ?thesis
      by (simp add: extensionobject_from_binary_after_typeid [OF a])
  next
    case False
    with b have "nat len = length body" by auto
    with False b have "skip (body @ rest') len = Inr rest'"
      by (simp add: skip_def)
    with False b u show ?thesis
      by (simp add: extensionobject_from_binary_after_typeid [OF a])
  qed
qed

theorem extensionobject_absent_witness:
  "extensionobject_to_binary 2 env0 PNone = (PNone, Inr [0, 0, 0])
   \<and> extensionobject_from_binary env0 [0, 0, 0] = Inr (PNone, [])
   \<and> extensionobject_from_binary env0 [0, 0, 1, 2, 0, 0, 0, 0xAA, 0xBB, 0x99] = Inr (PNone, [0x99])"
proof -
  have n: "nodeid_from_binary env0 [0, 0, 1, 2, 0, 0, 0, 0xAA, 0xBB, 0x99]
             = Inr (PNodeId TwoByte (PInt 0) (PInt 0) PNone PNone, [1, 2, 0, 0, 0, 0xAA, 0xBB, 0x99])"
    by (simp add: nodeid_from_binary_def NodeId_new_def read_def py_ord_def NodeIdType_of_def
        test_bit_def)
  have h: "bit (1 :: byte) 0
      \<and> [2, 0, 0, 0, 0xAA, 0xBB, 0x99] = le_bytes 4 2 @ [0xAA, 0xBB] @ [0x99 :: byte]
      \<and> - 2147483648 \<le> (2 :: int) \<and> (2 :: int) \<le> 2147483647
      \<and> (if (2 :: int) < 1 then [0xAA, 0xBB :: byte] = []
          else int (length [0xAA, 0xBB :: byte]) = 2)"
    by (simp add: le_bytes_def upt_rec)
  note T = extensionobject_absent [of 0 env0 "[0, 0, 1, 2, 0, 0, 0, 0xAA, 0xBB, 0x99]" "[]"]
  from T n h
  have "extensionobject_from_binary env0 [0, 0, 1, 2, 0, 0, 0, 0xAA, 0xBB, 0x99] = Inr (PNone, [0x99])"
    by blast
  moreover from T have "extensionobject_to_binary (Suc (Suc 0)) env0 PNone = (PNone, Inr [0, 0, 0])"
    by blast
  moreover from T have "extensionobject_from_binary env0 ([0, 0, 0] @ []) = Inr (PNone, [])"
    by blast
  ultimately show ?thesis by (simp add: numeral_2_eq_2)
qed

subsection \<open>What the encoders and reshape write to their arguments\<close>




subsection \<open>Optional fields and their switch bits\<close>

text \<open>
  Claim C2, as amended. Take a record whose \<^verbatim>\<open>ua_switches\<close> guard the optional field
  \<open>name\<close> by bit \<open>i\<close> (not negative) of the container field \<open>c\<close>. When the switch
  loop of \<open>struct_to_binary\<close> raises nothing, the record after encoding is the one
  that loop leaves; in it the bit is set whenever the optional field is not absent, and
  the bit is never cleared: when every field guarded by that bit is absent, the bit is
  as it was before the call. So the bit is set exactly when the optional field is
  present only if it was clear beforehand. When \<open>struct_from_binary\<close> reaches the
  optional field while the bit of its container is unset, it passes the field over:
  the rest of the loop runs on the same record and the same cursor, so no byte is
  consumed for the field and the field keeps its value.
\<close>

theorem optional_field_switch:
  "((name, c, i) \<in> set items \<and> 0 \<le> i
      \<and> set_switches (PObject cls tys (Some items) attrs) items = (obj', None) \<longrightarrow>
        fst (struct_to_binary (Suc n) env (PObject cls tys (Some items) attrs)) = obj'
      \<and> (getattr (PObject cls tys (Some items) attrs) name \<noteq> Inr PNone \<longrightarrow>
            switch_is_set obj' c i)
      \<and> ((\<forall>name'. (name', c, i) \<in> set items \<longrightarrow>
              getattr (PObject cls tys (Some items) attrs) name' = Inr PNone) \<longrightarrow>
            switch_is_set obj' c i = switch_is_set (PObject cls tys (Some items) attrs) c i))
   \<and> (map_of items name = Some (c, i)
      \<and> bindE (getattr (PObject cls tys (Some items) attrs2) c) (\<lambda>val. py_test_bit val i) = Inr 0 \<longrightarrow>
        struct_from_binary_fields fb data (PObject cls tys (Some items) attrs2)
            ((name, uatype) # flds) buf
          = struct_from_binary_fields fb data (PObject cls tys (Some items) attrs2) flds buf)"
proof (intro conjI impI)
  assume a: "(name, c, i) \<in> set items \<and> 0 \<le> i
      \<and> set_switches (PObject cls tys (Some items) attrs) items = (obj', None)"
  then have s: "set_switches (PObject cls tys (Some items) attrs) items = (obj', None)"
    and i: "0 \<le> i" and m: "(name, c, i) \<in> set items" by simp_all
  note bits = set_switches_bits [OF s i, of c]
  show "fst (struct_to_binary (Suc n) env (PObject cls tys (Some items) attrs)) = obj'"
    by (simp only: fst_struct_to_binary_switches s fst_conv)
  show "switch_is_set obj' c i"
    if "getattr (PObject cls tys (Some items) attrs) name \<noteq> Inr PNone"
    using bits m that by blast
  show "switch_is_set obj' c i = switch_is_set (PObject cls tys (Some items) attrs) c i"
    if "\<forall>name'. (name', c, i) \<in> set items \<longrightarrow>
              getattr (PObject cls tys (Some items) attrs) name' = Inr PNone"
    using bits that by blast
next
  assume "map_of items name = Some (c, i)
      \<and> bindE (getattr (PObject cls tys (Some items) attrs2) c) (\<lambda>val. py_test_bit val i) = Inr 0"
  then show "struct_from_binary_fields fb data (PObject cls tys (Some items) attrs2)
            ((name, uatype) # flds) buf
          = struct_from_binary_fields fb data (PObject cls tys (Some items) attrs2) flds buf"
    using skip_unset_switch [of items name c i cls tys attrs2 fb data uatype flds buf] by blast
qed

theorem optional_field_switch_witness:
  "struct_to_binary 3 env0 (Rec [(''Encoding'', PInt 0), (''Opt'', PInt 7)])
     = (Rec [(''Encoding'', PInt 4), (''Opt'', PInt 7)], Inr [4, 7, 0, 0, 0])
   \<and> switch_is_set (Rec [(''Encoding'', PInt 4), (''Opt'', PInt 7)]) ''Encoding'' 2
   \<and> struct_to_binary 3 env0 (Rec [(''Encoding'', PInt 0), (''Opt'', PNone)])
     = (Rec [(''Encoding'', PInt 0), (''Opt'', PNone)], Inr [0])
   \<and> struct_from_binary 3 env_Rec (PStr ''Rec'') PBuffer [0, 9, 9]
     = Inr (Rec [(''Encoding'', PInt 0), (''Opt'', PNone)], [9, 9])
   \<and> struct_from_binary 3 env_Rec (PStr ''Rec'') PBuffer [4, 7, 0, 0, 0, 9]
     = Inr (Rec [(''Encoding'', PInt 4), (''Opt'', PInt 7)], [9])"
proof -
  have e1: "struct_to_binary 3 env0 (Rec [(''Encoding'', PInt 0), (''Opt'', PInt 7)])
     = (Rec [(''Encoding'', PInt 4), (''Opt'', PInt 7)], Inr [4, 7, 0, 0, 0])"
    by code_simp
  have e2: "struct_to_binary 3 env0 (Rec [(''Encoding'', PInt 0), (''Opt'', PNone)])
     = (Rec [(''Encoding'', PInt 0), (''Opt'', PNone)], Inr [0])"
    by code_simp
  have d1: "struct_from_binary 3 env_Rec (PStr ''Rec'') PBuffer [0, 9, 9]
     = Inr (Rec [(''Encoding'', PInt 0), (''Opt'', PNone)], [9, 9])"
    by code_simp
  have d2: "struct_from_binary 3 env_Rec (PStr ''Rec'') PBuffer [4, 7, 0, 0, 0, 9]
     = Inr (Rec [(''Encoding'', PInt 4), (''Opt'', PInt 7)], [9])"
    by code_simp
  have s: "set_switches (PObject ''Rec'' [(''Encoding'', ''Byte''), (''Opt'', ''Int32'')]
              (Some [(''Opt'', ''Encoding'', 2)]) [(''Encoding'', PInt 0), (''Opt'', PInt 7)])
             [(''Opt'', ''Encoding'', 2)]
           = (Rec [(''Encoding'', PInt 4), (''Opt'', PInt 7)], None)"
    by code_simp
  have g: "getattr (PObject ''Rec'' [(''Encoding'', ''Byte''), (''Opt'', ''Int32'')]
              (Some [(''Opt'', ''Encoding'', 2)]) [(''Encoding'', PInt 0), (''Opt'', PInt 7)]) ''Opt''
            \<noteq> Inr PNone"
    by (simp add: getattr_def)
  have m: "(''Opt'', ''Encoding'', 2) \<in> set [(''Opt'', ''Encoding'', 2 :: int)]" by simp
  from optional_field_switch [of "''Opt''" "''Encoding''" 2 "[(''Opt'', ''Encoding'', 2)]"
      "''Rec''" "[(''Encoding'', ''Byte''), (''Opt'', ''Int32'')]"
      "[(''Encoding'', PInt 0), (''Opt'', PInt 7)]"
      "Rec [(''Encoding'', PInt 4), (''Opt'', PInt 7)]"] s g m
  have b: "switch_is_set (Rec [(''Encoding'', PInt 4), (''Opt'', PInt 7)]) ''Encoding'' 2"
    by simp
  from e1 b e2 d1 d2 show ?thesis by blast
qed

text \<open>
  The claim as first stated has the bit set exactly when the optional field is present.
  A record whose \<^verbatim>\<open>Encoding\<close> is 4 (bit 2 set) and whose \<^verbatim>\<open>Opt\<close> is absent is encoded to
  the byte 04 and keeps \<^verbatim>\<open>Encoding = 4\<close>: the bit stays set for an absent field.
\<close>

theorem optional_field_switch_counterexample:
  "struct_to_binary 3 env0 (Rec [(''Encoding'', PInt 4), (''Opt'', PNone)])
     = (Rec [(''Encoding'', PInt 4), (''Opt'', PNone)], Inr [4])
   \<and> getattr (Rec [(''Encoding'', PInt 4), (''Opt'', PNone)]) ''Opt'' = Inr PNone
   \<and> switch_is_set (Rec [(''Encoding'', PInt 4), (''Opt'', PNone)]) ''Encoding'' 2"
proof -
  have "struct_to_binary 3 env0 (Rec [(''Encoding'', PInt 4), (''Opt'', PNone)])
     = (Rec [(''Encoding'', PInt 4), (''Opt'', PNone)], Inr [4])"
    by code_simp
  moreover have "getattr (Rec [(''Encoding'', PInt 4), (''Opt'', PNone)]) ''Opt'' = Inr PNone"
    by code_simp
  moreover have "switch_is_set (Rec [(''Encoding'', PInt 4), (''Opt'', PNone)]) ''Encoding'' 2"
    by code_simp
  ultimately show ?thesis by blast
qed

end
